theory Spec2Isabelle
  imports Main "HOL-Library.Word"
begin

section \<open>Data model of pkg/networking/networking/route.go\<close>

text \<open>
  The package drives the kernel through the netlink library and formats addresses with
  Go's net package. Both are outside the repository, so they enter the model as an
  environment: a record of the library functions the source calls, over an abstract
  kernel state \<open>'k\<close>. Every function of route.go is a HOL function of that environment
  and of the kernel state; a mutating call returns the new state with its result.
  The zap logger only writes diagnostics and is left out.
\<close>

type_synonym byte = "8 word"

text \<open>A net.IP is a byte slice; a nil slice is \<open>None\<close> where the source tests for nil.\<close>

type_synonym IP = "byte list"

record IPNet =
  IP :: IP
  Mask :: "byte list"

text \<open>netlink.NexthopInfo: one segment of a multipath route.\<close>

record NexthopInfo =
  nh_LinkIndex :: int
  nh_Gw :: "IP option"

text \<open>
  netlink.Route, with the fields route.go reads or writes. \<open>Rest\<close> stands for all other
  fields of the struct, which the package only copies; its zero value is the empty string.
\<close>

record Route =
  LinkIndex :: int
  Scope :: byte
  Dst :: "IPNet option"
  Gw :: "IP option"
  MultiPath :: "NexthopInfo list"
  Family :: int
  Table :: int
  MTU :: int
  Rest :: string

text \<open>netlink.Rule, with the fields route.go sets.\<close>

record Rule =
  rule_Priority :: int
  rule_Family :: int
  rule_Table :: int
  rule_Mark :: int
  rule_Dst :: "IPNet option"
  rule_Src :: "IPNet option"
  rule_Rest :: string

text \<open>netlink.LinkAttrs, as far as \<open>link.Attrs()\<close> is used.\<close>

record LinkAttrs =
  Index :: int
  Name :: string

text \<open>An error value handed back by a library call.\<close>

datatype oserr = Errno nat | ErrText string

text \<open>The errors the package returns: a library error passed on as it is, or one of its own.\<close>

datatype error =
    Verbatim oserr
  | UnknownIpFamily int
  | FailedAddRouteTable Route oserr
  | FailedRouteDelMain Route oserr
  | FailedRouteAddNewTable Route oserr
  | FailedRouteDelIPv6 Route oserr
  | FailedRouteAddIPv6 Route oserr

text \<open>
  The environment. \<open>RouteList None\<close> is \<open>netlink.RouteList(nil, family)\<close>. \<open>NewRule\<close> is the
  value of \<open>netlink.NewRule()\<close>, \<open>IsExist\<close> is \<open>os.IsExist\<close>, \<open>To4\<close>, \<open>Equal\<close>, \<open>IPv4zero\<close> and the
  two \<open>String\<close> methods are those of package net.
\<close>

record 'k env =
  LinkByName :: "string \<Rightarrow> 'k \<Rightarrow> oserr + LinkAttrs"
  LinkByIndex :: "int \<Rightarrow> 'k \<Rightarrow> oserr + LinkAttrs"
  RouteList :: "LinkAttrs option \<Rightarrow> int \<Rightarrow> 'k \<Rightarrow> oserr + Route list"
  RouteAdd :: "Route \<Rightarrow> 'k \<Rightarrow> oserr option \<times> 'k"
  RouteDel :: "Route \<Rightarrow> 'k \<Rightarrow> oserr option \<times> 'k"
  RuleAdd :: "Rule \<Rightarrow> 'k \<Rightarrow> oserr option \<times> 'k"
  RuleDel :: "Rule \<Rightarrow> 'k \<Rightarrow> oserr option \<times> 'k"
  NewRule :: Rule
  IsExist :: "oserr \<Rightarrow> bool"
  To4 :: "IP \<Rightarrow> IP option"
  Equal :: "IP \<Rightarrow> IP \<Rightarrow> bool"
  IPv4zero :: IP
  IP_String :: "IP option \<Rightarrow> string"
  IPNet_String :: "IPNet option \<Rightarrow> string"

text \<open>The address families of netlink: AF_INET, AF_INET6 and AF_UNSPEC.\<close>

definition FAMILY_V4 :: int where
  "FAMILY_V4 = 2"

definition FAMILY_V6 :: int where
  "FAMILY_V6 = 10"

definition FAMILY_ALL :: int where
  "FAMILY_ALL = 0"

section \<open>The functions of route.go\<close>

definition defaultRulePriority :: int where
  "defaultRulePriority = 1000"

text \<open>A library call that returns only an error: passed on to the caller as it is.\<close>

definition verbatim :: "oserr option \<times> 'k \<Rightarrow> error option \<times> 'k" where
  "verbatim res = (map_option Verbatim (fst res), snd res)"

definition GetRoutesByName :: "'k env \<Rightarrow> string \<Rightarrow> int \<Rightarrow> 'k \<Rightarrow> oserr + Route list" where
  "GetRoutesByName E iface ipfamily k =
     (if iface \<noteq> [] then
        (case LinkByName E iface k of
           Inl err \<Rightarrow> Inl err
         | Inr link \<Rightarrow> RouteList E (Some link) ipfamily k)
      else RouteList E None ipfamily k)"

definition AddToRuleTable :: "'k env \<Rightarrow> IPNet option \<Rightarrow> int \<Rightarrow> 'k \<Rightarrow> error option \<times> 'k" where
  "AddToRuleTable E dst ruleTable k =
     verbatim (RuleAdd E ((NewRule E)\<lparr>rule_Table := ruleTable, rule_Dst := dst\<rparr>) k)"

definition DelToRuleTable :: "'k env \<Rightarrow> IPNet option \<Rightarrow> int \<Rightarrow> 'k \<Rightarrow> error option \<times> 'k" where
  "DelToRuleTable E dst ruleTable k =
     verbatim (RuleDel E ((NewRule E)\<lparr>rule_Table := ruleTable, rule_Dst := dst\<rparr>) k)"

definition AddRuleTableWithMark :: "'k env \<Rightarrow> int \<Rightarrow> int \<Rightarrow> int \<Rightarrow> 'k \<Rightarrow> error option \<times> 'k" where
  "AddRuleTableWithMark E mark ruleTable ipFamily k =
     verbatim (RuleAdd E ((NewRule E)\<lparr>rule_Mark := mark, rule_Table := ruleTable,
        rule_Family := ipFamily, rule_Priority := defaultRulePriority\<rparr>) k)"

definition AddFromRuleTable :: "'k env \<Rightarrow> IPNet option \<Rightarrow> int \<Rightarrow> 'k \<Rightarrow> error option \<times> 'k" where
  "AddFromRuleTable E src ruleTable k =
     verbatim (RuleAdd E ((NewRule E)\<lparr>rule_Table := ruleTable, rule_Src := src\<rparr>) k)"

definition DelFromRuleTable :: "'k env \<Rightarrow> IPNet option \<Rightarrow> int \<Rightarrow> 'k \<Rightarrow> error option \<times> 'k" where
  "DelFromRuleTable E src ruleTable k =
     verbatim (RuleDel E ((NewRule E)\<lparr>rule_Table := ruleTable, rule_Src := src\<rparr>) k)"

text \<open>
  The test \<open>dst == nil || dst.IP.Equal(net.IPv4zero)\<close> of GetDefaultGatewayByName and
  GetDefaultRouteInterface; the right operand is evaluated only for a non-nil \<open>dst\<close>.
\<close>

definition isDefaultDst :: "'k env \<Rightarrow> IPNet option \<Rightarrow> bool" where
  "isDefaultDst E dst = (case dst of None \<Rightarrow> True | Some d \<Rightarrow> Equal E (IP d) (IPv4zero E))"

text \<open>
  GetDefaultGatewayByName. The loop over the listed routes appends to \<open>gws\<close>; the inner
  loop over the segments stops at the first segment on the interface.
\<close>

fun collectGateways :: "'k env \<Rightarrow> LinkAttrs \<Rightarrow> Route list \<Rightarrow> string list \<Rightarrow> string list" where
  "collectGateways E link [] gws = gws"
| "collectGateways E link (route # routes) gws =
     (if LinkIndex route = Index link then
        (if isDefaultDst E (Dst route)
         then collectGateways E link routes (gws @ [IP_String E (Gw route)])
         else collectGateways E link routes gws)
      else
        (if length (MultiPath route) > 0 then
           (case find (\<lambda>r. nh_LinkIndex r = Index link) (MultiPath route) of
              Some r \<Rightarrow> collectGateways E link routes (gws @ [IP_String E (nh_Gw r)])
            | None \<Rightarrow> collectGateways E link routes gws)
         else collectGateways E link routes gws))"

definition GetDefaultGatewayByName :: "'k env \<Rightarrow> string \<Rightarrow> int \<Rightarrow> 'k \<Rightarrow> oserr + string list" where
  "GetDefaultGatewayByName E iface ipfamily k =
     (case GetRoutesByName E [] ipfamily k of
        Inl err \<Rightarrow> Inl err
      | Inr routes \<Rightarrow>
         (case LinkByName E iface k of
            Inl err \<Rightarrow> Inl err
          | Inr link \<Rightarrow> Inr (collectGateways E link routes [])))"

text \<open>
  AddRoute. \<open>newRoute\<close> is the struct literal of the source (every field it does not name
  has its zero value), \<open>selectGateway\<close> is the switch on the family.
\<close>

definition newRoute :: "LinkAttrs \<Rightarrow> byte \<Rightarrow> IPNet option \<Rightarrow> int \<Rightarrow> Route" where
  "newRoute link scope dst ruleTable =
     \<lparr>LinkIndex = Index link, Scope = scope, Dst = dst, Gw = None, MultiPath = [],
      Family = 0, Table = ruleTable, MTU = 0, Rest = []\<rparr>"

definition selectGateway :: "'k env \<Rightarrow> int \<Rightarrow> IPNet option \<Rightarrow> IP option \<Rightarrow> IP option \<Rightarrow> Route \<Rightarrow>
    error + Route" where
  "selectGateway E ipFamily dst v4Gw v6Gw route =
     (if ipFamily = FAMILY_V4 then
        Inr (if v4Gw \<noteq> None then route\<lparr>Gw := v4Gw\<rparr> else route)
      else if ipFamily = FAMILY_V6 then
        Inr (if v6Gw \<noteq> None then route\<lparr>Gw := v6Gw\<rparr> else route)
      else if ipFamily = FAMILY_ALL then
        (let route1 = (case dst of
                         None \<Rightarrow> route
                       | Some d \<Rightarrow> if To4 E (IP d) \<noteq> None \<and> v4Gw \<noteq> None
                                  then route\<lparr>Gw := v4Gw\<rparr> else route);
             route2 = (case dst of
                         None \<Rightarrow> route1
                       | Some d \<Rightarrow> if To4 E (IP d) = None \<and> v6Gw \<noteq> None
                                  then route1\<lparr>Gw := v6Gw\<rparr> else route1)
         in Inr route2)
      else Inl (UnknownIpFamily ipFamily))"

definition AddRoute :: "'k env \<Rightarrow> int \<Rightarrow> int \<Rightarrow> byte \<Rightarrow> string \<Rightarrow> IPNet option \<Rightarrow> IP option \<Rightarrow>
    IP option \<Rightarrow> 'k \<Rightarrow> error option \<times> 'k" where
  "AddRoute E ruleTable ipFamily scope iface dst v4Gw v6Gw k =
     (case LinkByName E iface k of
        Inl err \<Rightarrow> (Some (Verbatim err), k)
      | Inr link \<Rightarrow>
         (case selectGateway E ipFamily dst v4Gw v6Gw (newRoute link scope dst ruleTable) of
            Inl e \<Rightarrow> (Some e, k)
          | Inr route \<Rightarrow>
             (case RouteAdd E route k of
                (Some err, k') \<Rightarrow>
                  if \<not> IsExist E err then (Some (FailedAddRouteTable route err), k')
                  else (None, k')
              | (None, k') \<Rightarrow> (None, k'))))"

text \<open>
  MoveRouteTable. The two routes built for a multipath route, from the segment \<open>v\<close> on
  the interface:
\<close>

definition generatedRoute :: "NexthopInfo \<Rightarrow> int \<Rightarrow> Route \<Rightarrow> Route" where
  "generatedRoute v dstRuleTable route =
     \<lparr>LinkIndex = nh_LinkIndex v, Scope = 0, Dst = None, Gw = nh_Gw v, MultiPath = [],
      Family = 0, Table = dstRuleTable, MTU = MTU route, Rest = []\<rparr>"

definition deletedRoute :: "NexthopInfo \<Rightarrow> int \<Rightarrow> Route" where
  "deletedRoute v srcRuleTable =
     \<lparr>LinkIndex = nh_LinkIndex v, Scope = 0, Dst = None, Gw = nh_Gw v, MultiPath = [],
      Family = 0, Table = srcRuleTable, MTU = 0, Rest = []\<rparr>"

text \<open>
  The loop over the listed routes. It returns at the first failing call, with the kernel
  state reached so far; an add that fails with an error \<open>os.IsExist\<close> accepts goes on.
\<close>

fun moveRoutes :: "'k env \<Rightarrow> LinkAttrs \<Rightarrow> int \<Rightarrow> int \<Rightarrow> Route list \<Rightarrow> 'k \<Rightarrow> error option \<times> 'k" where
  "moveRoutes E link srcRuleTable dstRuleTable [] k = (None, k)"
| "moveRoutes E link srcRuleTable dstRuleTable (route # routes) k =
     (if Table route \<noteq> srcRuleTable then
        moveRoutes E link srcRuleTable dstRuleTable routes k
      else if IPNet_String E (Dst route) = ''fe80::/64'' then
        moveRoutes E link srcRuleTable dstRuleTable routes k
      else if LinkIndex route = Index link then
        (case RouteDel E route k of
           (Some err, k1) \<Rightarrow> (Some (FailedRouteDelMain route err), k1)
         | (None, k1) \<Rightarrow>
            (case RouteAdd E (route\<lparr>Table := dstRuleTable\<rparr>) k1 of
               (Some err, k2) \<Rightarrow>
                 if \<not> IsExist E err
                 then (Some (FailedRouteAddNewTable (route\<lparr>Table := dstRuleTable\<rparr>) err), k2)
                 else moveRoutes E link srcRuleTable dstRuleTable routes k2
             | (None, k2) \<Rightarrow> moveRoutes E link srcRuleTable dstRuleTable routes k2))
      else if length (MultiPath route) = 0 then
        moveRoutes E link srcRuleTable dstRuleTable routes k
      else
        (case find (\<lambda>v. nh_LinkIndex v = Index link) (MultiPath route) of
           None \<Rightarrow> moveRoutes E link srcRuleTable dstRuleTable routes k
         | Some v \<Rightarrow>
            (case RouteDel E (deletedRoute v srcRuleTable) k of
               (Some err, k1) \<Rightarrow> (Some (FailedRouteDelIPv6 route err), k1)
             | (None, k1) \<Rightarrow>
                (case RouteAdd E (generatedRoute v dstRuleTable route) k1 of
                   (Some err, k2) \<Rightarrow>
                     if \<not> IsExist E err then (Some (FailedRouteAddIPv6 route err), k2)
                     else moveRoutes E link srcRuleTable dstRuleTable routes k2
                 | (None, k2) \<Rightarrow> moveRoutes E link srcRuleTable dstRuleTable routes k2))))"

definition MoveRouteTable :: "'k env \<Rightarrow> string \<Rightarrow> int \<Rightarrow> int \<Rightarrow> int \<Rightarrow> 'k \<Rightarrow> error option \<times> 'k" where
  "MoveRouteTable E iface srcRuleTable dstRuleTable ipfamily k =
     (case LinkByName E iface k of
        Inl err \<Rightarrow> (Some (Verbatim err), k)
      | Inr link \<Rightarrow>
         (case RouteList E None ipfamily k of
            Inl err \<Rightarrow> (Some (Verbatim err), k)
          | Inr routes \<Rightarrow> moveRoutes E link srcRuleTable dstRuleTable routes k))"

text \<open>
  GetDefaultRouteInterface. The namespace handle is its \<open>Do\<close> method: it either fails to
  enter the namespace or gives the kernel state the closure runs in. Each loop carries the
  variable \<open>defaultInterface\<close>; \<open>Some\<close> is a return from inside the loop, \<open>None\<close> its end.
\<close>

type_synonym 'k NetNS = "'k \<Rightarrow> oserr + 'k"

definition getDefaultRouteIface :: "'k env \<Rightarrow> int \<Rightarrow> string \<Rightarrow> 'k \<Rightarrow> string \<times> oserr option" where
  "getDefaultRouteIface E linkIndex ignore k =
     (case LinkByIndex E linkIndex k of
        Inl err \<Rightarrow> ([], Some err)
      | Inr link \<Rightarrow>
         if ignore \<noteq> [] \<and> Name link = ignore then ([], None)
         else (Name link, None))"

fun scanMultiPath :: "'k env \<Rightarrow> string \<Rightarrow> NexthopInfo list \<Rightarrow> string \<Rightarrow> 'k \<Rightarrow>
    (string \<times> oserr option) + string" where
  "scanMultiPath E ignore [] defaultInterface k = Inr defaultInterface"
| "scanMultiPath E ignore (v6DefaultRoute # segs) defaultInterface k =
     (case getDefaultRouteIface E (nh_LinkIndex v6DefaultRoute) ignore k of
        (name, Some err) \<Rightarrow> Inl (name, Some err)
      | (name, None) \<Rightarrow>
         if name \<noteq> [] then Inl (name, None)
         else scanMultiPath E ignore segs name k)"

fun scanRoutesV6 :: "'k env \<Rightarrow> string \<Rightarrow> Route list \<Rightarrow> string \<Rightarrow> 'k \<Rightarrow> string \<times> oserr option" where
  "scanRoutesV6 E ignore [] defaultInterface k = (defaultInterface, None)"
| "scanRoutesV6 E ignore (route # routes) defaultInterface k =
     (if length (MultiPath route) > 0 then
        (case scanMultiPath E ignore (MultiPath route) defaultInterface k of
           Inl res \<Rightarrow> res
         | Inr name \<Rightarrow> scanRoutesV6 E ignore routes name k)
      else scanRoutesV6 E ignore routes defaultInterface k)"

fun scanRoutesV4 :: "'k env \<Rightarrow> string \<Rightarrow> Route list \<Rightarrow> string \<Rightarrow> 'k \<Rightarrow> string \<times> oserr option" where
  "scanRoutesV4 E ignore [] defaultInterface k = (defaultInterface, None)"
| "scanRoutesV4 E ignore (route # routes) defaultInterface k =
     (if Family route = FAMILY_V4 then
        (if isDefaultDst E (Dst route) then
           (case getDefaultRouteIface E (LinkIndex route) ignore k of
              (name, Some err) \<Rightarrow> (name, Some err)
            | (name, None) \<Rightarrow>
               if name \<noteq> [] then (name, None)
               else scanRoutesV4 E ignore routes name k)
         else scanRoutesV4 E ignore routes defaultInterface k)
      else scanRoutesV4 E ignore routes defaultInterface k)"

definition GetDefaultRouteInterface :: "'k env \<Rightarrow> int \<Rightarrow> string \<Rightarrow> 'k NetNS \<Rightarrow> 'k \<Rightarrow>
    string \<times> oserr option" where
  "GetDefaultRouteInterface E ipfamily filterInterface netns k =
     (case netns k of
        Inl err \<Rightarrow> ([], Some err)
      | Inr k' \<Rightarrow>
         (case RouteList E None ipfamily k' of
            Inl err \<Rightarrow> ([], Some err)
          | Inr routes \<Rightarrow>
             if ipfamily = FAMILY_V6 then scanRoutesV6 E filterInterface routes [] k'
             else scanRoutesV4 E filterInterface routes [] k'))"

text \<open>
  The results of \<open>netlink.RouteAdd\<close> after which AddRoute and MoveRouteTable go on: no error,
  or an error that \<open>os.IsExist\<close> accepts.
\<close>

definition accepted :: "'k env \<Rightarrow> oserr option \<Rightarrow> bool" where
  "accepted E res = (case res of None \<Rightarrow> True | Some err \<Rightarrow> IsExist E err)"

section \<open>Observing the calls a function makes\<close>

text \<open>
  To say which routes and rules a function submits, and in which order, the kernel state
  is paired with a log: \<open>recording E\<close> answers every call as \<open>E\<close> does and appends each
  mutating call to the log.
\<close>

datatype call = CRouteAdd Route | CRouteDel Route | CRuleAdd Rule | CRuleDel Rule

definition logged :: "(call \<Rightarrow> 'k \<Rightarrow> oserr option \<times> 'k) \<Rightarrow> call \<Rightarrow> 'k \<times> call list \<Rightarrow>
    oserr option \<times> 'k \<times> call list" where
  "logged f c s = (fst (f c (fst s)), snd (f c (fst s)), snd s @ [c])"


definition recording :: "'k env \<Rightarrow> ('k \<times> call list) env" where
  "recording E =
     \<lparr>LinkByName = (\<lambda>n s. LinkByName E n (fst s)),
      LinkByIndex = (\<lambda>i s. LinkByIndex E i (fst s)),
      RouteList = (\<lambda>l f s. RouteList E l f (fst s)),
      RouteAdd = (\<lambda>r. logged (\<lambda>_. RouteAdd E r) (CRouteAdd r)),
      RouteDel = (\<lambda>r. logged (\<lambda>_. RouteDel E r) (CRouteDel r)),
      RuleAdd = (\<lambda>r. logged (\<lambda>_. RuleAdd E r) (CRuleAdd r)),
      RuleDel = (\<lambda>r. logged (\<lambda>_. RuleDel E r) (CRuleDel r)),
      NewRule = NewRule E,
      IsExist = IsExist E,
      To4 = To4 E,
      Equal = Equal E,
      IPv4zero = IPv4zero E,
      IP_String = IP_String E,
      IPNet_String = IPNet_String E\<rparr>"

section \<open>A reference environment\<close>

text \<open>
  To run the functions on concrete inputs, the library functions of Go are written out
  after package net and package os, and the kernel is replaced by a small in-memory
  table of links, routes and rules. The properties below are proved for every
  environment; this one supplies their concrete instances.
\<close>

definition v4InV6Prefix :: "byte list" where
  "v4InV6Prefix = [0, 0, 0, 0, 0, 0, 0, 0, 0, 0, 0xff, 0xff]"

definition go_IPv4zero :: IP where
  "go_IPv4zero = v4InV6Prefix @ [0, 0, 0, 0]"

definition go_To4 :: "IP \<Rightarrow> IP option" where
  "go_To4 ip =
     (if length ip = 4 then Some ip
      else if length ip = 16 \<and> take 12 ip = v4InV6Prefix then Some (drop 12 ip)
      else None)"

definition go_Equal :: "IP \<Rightarrow> IP \<Rightarrow> bool" where
  "go_Equal ip x =
     (if length ip = length x then ip = x
      else if length ip = 4 \<and> length x = 16 then take 12 x = v4InV6Prefix \<and> ip = drop 12 x
      else if length ip = 16 \<and> length x = 4 then take 12 ip = v4InV6Prefix \<and> drop 12 ip = x
      else False)"

definition hexDigit :: "nat \<Rightarrow> char" where
  "hexDigit n = ''0123456789abcdef'' ! (n mod 16)"

definition hexString :: "byte list \<Rightarrow> string" where
  "hexString bs = concat (map (\<lambda>b. [hexDigit (unat b div 16), hexDigit (unat b)]) bs)"

text \<open>A number below 65536 in hexadecimal, and one below 1000 in decimal, without leading zeros.\<close>

definition appendHex :: "nat \<Rightarrow> string" where
  "appendHex n =
     (if n < 16 then [hexDigit n]
      else if n < 256 then [hexDigit (n div 16), hexDigit n]
      else if n < 4096 then [hexDigit (n div 256), hexDigit (n div 16), hexDigit n]
      else [hexDigit (n div 4096), hexDigit (n div 256), hexDigit (n div 16), hexDigit n])"

definition decDigit :: "nat \<Rightarrow> char" where
  "decDigit n = ''0123456789'' ! (n mod 10)"

definition uitoa :: "nat \<Rightarrow> string" where
  "uitoa n =
     (if n < 10 then [decDigit n]
      else if n < 100 then [decDigit (n div 10), decDigit n]
      else [decDigit (n div 100), decDigit (n div 10), decDigit n])"

fun joinWith :: "string \<Rightarrow> string list \<Rightarrow> string" where
  "joinWith sep [] = []"
| "joinWith sep [x] = x"
| "joinWith sep (x # y # zs) = x @ sep @ joinWith sep (y # zs)"

fun groups16 :: "byte list \<Rightarrow> nat list" where
  "groups16 (a # b # rest) = (256 * unat a + unat b) # groups16 rest"
| "groups16 _ = []"

text \<open>The first longest run of at least two zero groups, as (start, end); (255, 255) is none.\<close>

definition zeroRun :: "nat list \<Rightarrow> nat \<times> nat" where
  "zeroRun gs =
     fold (\<lambda>i (zeroStart, zeroEnd).
             (let l = length (takeWhile (\<lambda>g. g = 0) (drop i gs))
              in if l \<ge> 2 \<and> l > zeroEnd - zeroStart then (i, i + l) else (zeroStart, zeroEnd)))
          [0, 1, 2, 3, 4, 5, 6, 7] (255, 255)"

definition string6 :: "byte list \<Rightarrow> string" where
  "string6 ip =
     (let gs = groups16 ip; z = zeroRun gs
      in if fst z = 255 then joinWith '':'' (map appendHex gs)
         else joinWith '':'' (map appendHex (take (fst z) gs)) @ ''::'' @
              joinWith '':'' (map appendHex (drop (snd z) gs)))"

definition go_IP_String :: "IP option \<Rightarrow> string" where
  "go_IP_String ipo =
     (case ipo of
        None \<Rightarrow> ''<nil>''
      | Some ip \<Rightarrow>
         if length ip = 0 then ''<nil>''
         else if length ip \<noteq> 4 \<and> length ip \<noteq> 16 then ''?'' @ hexString ip
         else (case go_To4 ip of
                 Some p4 \<Rightarrow> joinWith ''.'' (map (\<lambda>b. uitoa (unat b)) p4)
               | None \<Rightarrow> string6 ip))"

fun simpleMaskLength :: "byte list \<Rightarrow> nat option" where
  "simpleMaskLength [] = Some 0"
| "simpleMaskLength (v # rest) =
     (if v = 0xff then map_option (\<lambda>n. n + 8) (simpleMaskLength rest)
      else (case map_of [(0x00, 0), (0x80, 1), (0xc0, 2), (0xe0, 3), (0xf0, 4), (0xf8, 5),
                         (0xfc, 6), (0xfe, 7 :: nat)] v of
              None \<Rightarrow> None
            | Some n \<Rightarrow> if list_all (\<lambda>b. b = 0) rest then Some n else None))"

definition networkNumberAndMask :: "IPNet \<Rightarrow> (IP \<times> byte list) option" where
  "networkNumberAndMask n =
     (case (case go_To4 (IP n) of
              Some p4 \<Rightarrow> Some p4
            | None \<Rightarrow> if length (IP n) = 16 then Some (IP n) else None) of
        None \<Rightarrow> None
      | Some ip \<Rightarrow>
         if length (Mask n) = 4 then (if length ip = 4 then Some (ip, Mask n) else None)
         else if length (Mask n) = 16 then
           (if length ip = 4 then Some (ip, drop 12 (Mask n)) else Some (ip, Mask n))
         else None)"

definition go_IPNet_String :: "IPNet option \<Rightarrow> string" where
  "go_IPNet_String no =
     (case no of
        None \<Rightarrow> ''<nil>''
      | Some n \<Rightarrow>
         (case networkNumberAndMask n of
            None \<Rightarrow> ''<nil>''
          | Some (nn, m) \<Rightarrow>
             (case simpleMaskLength m of
                None \<Rightarrow> go_IP_String (Some nn) @ ''/'' @ hexString m
              | Some l \<Rightarrow> go_IP_String (Some nn) @ ''/'' @ uitoa l)))"

text \<open>\<open>os.IsExist\<close>: EEXIST and ENOTEMPTY.\<close>

fun go_IsExist :: "oserr \<Rightarrow> bool" where
  "go_IsExist (Errno n) = (n = 17 \<or> n = 39)"
| "go_IsExist (ErrText _) = False"

text \<open>The in-memory kernel.\<close>

record kstate =
  ns_links :: "LinkAttrs list"
  ns_routes :: "Route list"
  ns_rules :: "Rule list"

definition mem_LinkByName :: "string \<Rightarrow> kstate \<Rightarrow> oserr + LinkAttrs" where
  "mem_LinkByName n k =
     (case find (\<lambda>l. Name l = n) (ns_links k) of
        None \<Rightarrow> Inl (ErrText ''Link not found'')
      | Some l \<Rightarrow> Inr l)"

definition mem_LinkByIndex :: "int \<Rightarrow> kstate \<Rightarrow> oserr + LinkAttrs" where
  "mem_LinkByIndex i k =
     (case find (\<lambda>l. Index l = i) (ns_links k) of
        None \<Rightarrow> Inl (ErrText ''Link not found'')
      | Some l \<Rightarrow> Inr l)"

definition mem_RouteList :: "LinkAttrs option \<Rightarrow> int \<Rightarrow> kstate \<Rightarrow> oserr + Route list" where
  "mem_RouteList link family k =
     Inr (filter (\<lambda>r. (case link of None \<Rightarrow> True | Some l \<Rightarrow> LinkIndex r = Index l)
                     \<and> (family = FAMILY_ALL \<or> Family r = family)) (ns_routes k))"

text \<open>
  A descriptor selects the routes of its table and destination that leave through its
  link and gateway, at the top level or in one of their segments.
\<close>

definition selects :: "Route \<Rightarrow> Route \<Rightarrow> bool" where
  "selects d r =
     (Table r = Table d \<and> Dst r = Dst d
      \<and> (LinkIndex r = LinkIndex d \<and> Gw r = Gw d
         \<or> list_ex (\<lambda>v. nh_LinkIndex v = LinkIndex d \<and> nh_Gw v = Gw d) (MultiPath r)))"

definition mem_RouteAdd :: "Route \<Rightarrow> kstate \<Rightarrow> oserr option \<times> kstate" where
  "mem_RouteAdd r k =
     (if List.member (ns_routes k) r then (Some (Errno 17), k)
      else (None, k\<lparr>ns_routes := ns_routes k @ [r]\<rparr>))"

definition mem_RouteDel :: "Route \<Rightarrow> kstate \<Rightarrow> oserr option \<times> kstate" where
  "mem_RouteDel d k =
     (if list_ex (selects d) (ns_routes k)
      then (None, k\<lparr>ns_routes := filter (\<lambda>r. \<not> selects d r) (ns_routes k)\<rparr>)
      else (Some (Errno 3), k))"

definition sameMatch :: "Rule \<Rightarrow> Rule \<Rightarrow> bool" where
  "sameMatch d q =
     (rule_Table q = rule_Table d \<and> rule_Dst q = rule_Dst d \<and> rule_Src q = rule_Src d
      \<and> rule_Mark q = rule_Mark d)"

text \<open>
  The rule table is kept in lookup order. A rule added without a priority is looked up
  before the rules added earlier, also when an equal rule is already there; a delete
  removes the first rule the descriptor matches, and only that one.
\<close>

fun dropFirst :: "('a \<Rightarrow> bool) \<Rightarrow> 'a list \<Rightarrow> 'a list" where
  "dropFirst P [] = []"
| "dropFirst P (x # xs) = (if P x then xs else x # dropFirst P xs)"

definition mem_RuleAdd :: "Rule \<Rightarrow> kstate \<Rightarrow> oserr option \<times> kstate" where
  "mem_RuleAdd q k = (None, k\<lparr>ns_rules := q # ns_rules k\<rparr>)"

definition mem_RuleDel :: "Rule \<Rightarrow> kstate \<Rightarrow> oserr option \<times> kstate" where
  "mem_RuleDel d k =
     (if list_ex (sameMatch d) (ns_rules k)
      then (None, k\<lparr>ns_rules := dropFirst (sameMatch d) (ns_rules k)\<rparr>)
      else (Some (Errno 2), k))"

definition mem_NewRule :: Rule where
  "mem_NewRule =
     \<lparr>rule_Priority = - 1, rule_Family = 0, rule_Table = 0, rule_Mark = - 1,
      rule_Dst = None, rule_Src = None, rule_Rest = []\<rparr>"

definition memEnv :: "kstate env" where
  "memEnv =
     \<lparr>LinkByName = mem_LinkByName,
      LinkByIndex = mem_LinkByIndex,
      RouteList = mem_RouteList,
      RouteAdd = mem_RouteAdd,
      RouteDel = mem_RouteDel,
      RuleAdd = mem_RuleAdd,
      RuleDel = mem_RuleDel,
      NewRule = mem_NewRule,
      IsExist = go_IsExist,
      To4 = go_To4,
      Equal = go_Equal,
      IPv4zero = go_IPv4zero,
      IP_String = go_IP_String,
      IPNet_String = go_IPNet_String\<rparr>"

text \<open>Concrete links, addresses and networks.\<close>

definition eth0 :: LinkAttrs where
  "eth0 = \<lparr>Index = 2, Name = ''eth0''\<rparr>"

definition net1 :: LinkAttrs where
  "net1 = \<lparr>Index = 3, Name = ''net1''\<rparr>"

definition ip_2001_db8_1 :: IP where
  "ip_2001_db8_1 = [0x20, 0x01, 0x0d, 0xb8, 0, 0, 0, 0, 0, 0, 0, 0, 0, 0, 0, 0x01]"

definition ip_2001_db8_2 :: IP where
  "ip_2001_db8_2 = [0x20, 0x01, 0x0d, 0xb8, 0, 0, 0, 0, 0, 0, 0, 0, 0, 0, 0, 0x02]"

definition ip_192_0_2_1 :: IP where
  "ip_192_0_2_1 = [192, 0, 2, 1]"

definition net_fe80_64 :: IPNet where
  "net_fe80_64 =
     \<lparr>IP = [0xfe, 0x80, 0, 0, 0, 0, 0, 0, 0, 0, 0, 0, 0, 0, 0, 0],
      Mask = [0xff, 0xff, 0xff, 0xff, 0xff, 0xff, 0xff, 0xff, 0, 0, 0, 0, 0, 0, 0, 0]\<rparr>"

definition net_10_0_0_0_24 :: IPNet where
  "net_10_0_0_0_24 = \<lparr>IP = [10, 0, 0, 0], Mask = [0xff, 0xff, 0xff, 0]\<rparr>"

definition net_2001_db8_32 :: IPNet where
  "net_2001_db8_32 =
     \<lparr>IP = [0x20, 0x01, 0x0d, 0xb8, 0, 0, 0, 0, 0, 0, 0, 0, 0, 0, 0, 0],
      Mask = [0xff, 0xff, 0xff, 0xff, 0, 0, 0, 0, 0, 0, 0, 0, 0, 0, 0, 0]\<rparr>"

definition ns0 :: kstate where
  "ns0 = \<lparr>ns_links = [eth0, net1], ns_routes = [], ns_rules = []\<rparr>"

text \<open>
  The gateways of GetDefaultGatewayByName as the specification words them: a route on the
  interface whose destination is the default contributes its gateway; every other route
  that has segments contributes the gateway of its first segment on the interface. The
  data model of the specification has no route that both has segments and is bound to
  the interface at the top level: \<open>ownedPerSegment\<close>.
\<close>

definition ownedPerSegment :: "int \<Rightarrow> Route \<Rightarrow> bool" where
  "ownedPerSegment idx route = (MultiPath route = [] \<or> LinkIndex route \<noteq> idx)"

definition gatewaysAsStated :: "'k env \<Rightarrow> int \<Rightarrow> Route \<Rightarrow> string list" where
  "gatewaysAsStated E idx route =
     (if LinkIndex route = idx \<and> isDefaultDst E (Dst route) then [IP_String E (Gw route)]
      else if MultiPath route \<noteq> [] then
        (case find (\<lambda>v. nh_LinkIndex v = idx) (MultiPath route) of
           Some v \<Rightarrow> [IP_String E (nh_Gw v)]
         | None \<Rightarrow> [])
      else [])"

text \<open>A namespace where \<open>eth0\<close> and \<open>net1\<close> share one IPv6 multipath default route.\<close>

definition sharedDefault :: Route where
  "sharedDefault =
     \<lparr>LinkIndex = 0, Scope = 0, Dst = None, Gw = None,
      MultiPath = [\<lparr>nh_LinkIndex = 2, nh_Gw = Some ip_2001_db8_2\<rparr>,
                   \<lparr>nh_LinkIndex = 3, nh_Gw = Some ip_2001_db8_1\<rparr>],
      Family = 10, Table = 254, MTU = 1500, Rest = []\<rparr>"

definition nsShared :: kstate where
  "nsShared = \<lparr>ns_links = [eth0, net1], ns_routes = [sharedDefault], ns_rules = []\<rparr>"

text \<open>
  Namespaces for MoveRouteTable: one where the shared multipath route goes to fe80::/64,
  one where \<open>eth0\<close> alone has a default route in the main table, and one where \<open>net1\<close> has
  its link-local route next to the shared default route.
\<close>

definition hopNet1 :: NexthopInfo where
  "hopNet1 = \<lparr>nh_LinkIndex = 3, nh_Gw = Some ip_2001_db8_1\<rparr>"

definition linkLocalShared :: Route where
  "linkLocalShared = sharedDefault\<lparr>Dst := Some net_fe80_64\<rparr>"

definition nsLinkLocalShared :: kstate where
  "nsLinkLocalShared = \<lparr>ns_links = [eth0, net1], ns_routes = [linkLocalShared], ns_rules = []\<rparr>"

definition default4 :: Route where
  "default4 =
     \<lparr>LinkIndex = 2, Scope = 0, Dst = None, Gw = Some ip_192_0_2_1, MultiPath = [],
      Family = 2, Table = 254, MTU = 0, Rest = []\<rparr>"

definition nsMain :: kstate where
  "nsMain = \<lparr>ns_links = [eth0, net1], ns_routes = [default4], ns_rules = []\<rparr>"



text \<open>
  The link indices GetDefaultRouteInterface looks up, in the order of its scan: for v6 the
  segments of every listed route, for any other family the listed v4 routes whose
  destination is the default. \<open>firstInterface\<close> is the scan over such a list of indices.
\<close>

definition defaultRouteLinks :: "'k env \<Rightarrow> int \<Rightarrow> Route list \<Rightarrow> int list" where
  "defaultRouteLinks E ipfamily routes =
     (if ipfamily = FAMILY_V6 then concat (map (\<lambda>r. map nh_LinkIndex (MultiPath r)) routes)
      else map LinkIndex (filter (\<lambda>r. Family r = FAMILY_V4 \<and> isDefaultDst E (Dst r)) routes))"

fun firstInterface :: "'k env \<Rightarrow> string \<Rightarrow> int list \<Rightarrow> string \<Rightarrow> 'k \<Rightarrow> string \<times> oserr option" where
  "firstInterface E ignore [] defaultInterface k = (defaultInterface, None)"
| "firstInterface E ignore (i # idxs) defaultInterface k =
     (case getDefaultRouteIface E i ignore k of
        (name, Some err) \<Rightarrow> (name, Some err)
      | (name, None) \<Rightarrow>
         if name \<noteq> [] then (name, None)
         else firstInterface E ignore idxs name k)"

text \<open>A namespace where \<open>eth0\<close> and \<open>net1\<close> each have an IPv4 default route.\<close>

definition default4Net1 :: Route where
  "default4Net1 = default4\<lparr>LinkIndex := 3\<rparr>"

definition nsTwoDefaults :: kstate where
  "nsTwoDefaults = \<lparr>ns_links = [eth0, net1], ns_routes = [default4, default4Net1], ns_rules = []\<rparr>"

text \<open>
  Default routes that are listed without a link: an IPv4 multipath default route over
  \<open>eth0\<close> and \<open>net1\<close>, whose top-level link index is 0, and a default route without a
  device. No link has index 0.
\<close>

definition ecmpDefault4 :: Route where
  "ecmpDefault4 =
     \<lparr>LinkIndex = 0, Scope = 0, Dst = None, Gw = None,
      MultiPath = [\<lparr>nh_LinkIndex = 2, nh_Gw = Some ip_192_0_2_1\<rparr>,
                   \<lparr>nh_LinkIndex = 3, nh_Gw = Some ip_192_0_2_1\<rparr>],
      Family = 2, Table = 254, MTU = 0, Rest = []\<rparr>"

definition nsEcmp4 :: kstate where
  "nsEcmp4 = \<lparr>ns_links = [eth0, net1], ns_routes = [ecmpDefault4, default4Net1], ns_rules = []\<rparr>"

definition devicelessDefault4 :: Route where
  "devicelessDefault4 = default4\<lparr>LinkIndex := 0, Gw := None\<rparr>"

definition nsDeviceless :: kstate where
  "nsDeviceless = \<lparr>ns_links = [eth0, net1], ns_routes = [devicelessDefault4], ns_rules = []\<rparr>"

text \<open>
  The rule to 10.0.0.0/24 in table 100 as AddToRuleTable describes it, and a namespace
  that already holds such a rule, with the priority the kernel gave it.
\<close>

definition rule_10_0_0_0_24 :: Rule where
  "rule_10_0_0_0_24 = mem_NewRule\<lparr>rule_Table := 100, rule_Dst := Some net_10_0_0_0_24\<rparr>"

definition nsRuleHeld :: kstate where
  "nsRuleHeld = ns0\<lparr>ns_rules := [rule_10_0_0_0_24\<lparr>rule_Priority := 32765\<rparr>]\<rparr>"

section \<open>Properties\<close>

lemma recording_simps:
  "LinkByName (recording E) n s = LinkByName E n (fst s)"
  "LinkByIndex (recording E) i s = LinkByIndex E i (fst s)"
  "RouteList (recording E) l f s = RouteList E l f (fst s)"
  "RouteAdd (recording E) r s = (fst (RouteAdd E r (fst s)), snd (RouteAdd E r (fst s)), snd s @ [CRouteAdd r])"
  "RouteDel (recording E) r s = (fst (RouteDel E r (fst s)), snd (RouteDel E r (fst s)), snd s @ [CRouteDel r])"
  "RuleAdd (recording E) q s = (fst (RuleAdd E q (fst s)), snd (RuleAdd E q (fst s)), snd s @ [CRuleAdd q])"
  "RuleDel (recording E) q s = (fst (RuleDel E q (fst s)), snd (RuleDel E q (fst s)), snd s @ [CRuleDel q])"
  "NewRule (recording E) = NewRule E"
  "IsExist (recording E) = IsExist E"
  "To4 (recording E) = To4 E"
  "Equal (recording E) = Equal E"
  "IPv4zero (recording E) = IPv4zero E"
  "IP_String (recording E) = IP_String E"
  "IPNet_String (recording E) = IPNet_String E"
  by (simp_all add: recording_def logged_def)

text \<open>
  Recording changes neither the result nor the kernel state of a run: the run under
  \<open>recording E\<close> answers as the run under \<open>E\<close> does. For the rule functions:
\<close>

lemma rules_recording:
  "fst (AddRuleTableWithMark (recording E) mark ruleTable ipFamily (k, log)) =
     fst (AddRuleTableWithMark E mark ruleTable ipFamily k)"
  "fst (snd (AddRuleTableWithMark (recording E) mark ruleTable ipFamily (k, log))) =
     snd (AddRuleTableWithMark E mark ruleTable ipFamily k)"
  "fst (AddToRuleTable (recording E) net ruleTable (k, log)) = fst (AddToRuleTable E net ruleTable k)"
  "fst (snd (AddToRuleTable (recording E) net ruleTable (k, log))) = snd (AddToRuleTable E net ruleTable k)"
  "fst (DelToRuleTable (recording E) net ruleTable (k, log)) = fst (DelToRuleTable E net ruleTable k)"
  "fst (snd (DelToRuleTable (recording E) net ruleTable (k, log))) = snd (DelToRuleTable E net ruleTable k)"
  by (simp_all add: AddRuleTableWithMark_def AddToRuleTable_def DelToRuleTable_def verbatim_def
      recording_simps)

text \<open>
  C8: for every mark, table and family, AddRuleTableWithMark submits exactly one policy
  rule, the default rule of the library with its mark, table and family set to the
  arguments and its priority set to 1000; it makes no other mutating call, and its result
  is the result of that submission.
\<close>

theorem AddRuleTableWithMark_submits:
  "\<exists>rule. snd (snd (AddRuleTableWithMark (recording E) mark ruleTable ipFamily (k, []))) = [CRuleAdd rule]
     \<and> rule_Mark rule = mark \<and> rule_Table rule = ruleTable \<and> rule_Family rule = ipFamily
     \<and> rule_Priority rule = 1000
     \<and> rule = (NewRule E)\<lparr>rule_Mark := mark, rule_Table := ruleTable, rule_Family := ipFamily,
          rule_Priority := 1000\<rparr>
     \<and> AddRuleTableWithMark E mark ruleTable ipFamily k = verbatim (RuleAdd E rule k)"
  by (simp add: AddRuleTableWithMark_def verbatim_def recording_simps defaultRulePriority_def)

lemma AddRoute_resolved:
  assumes "LinkByName E iface k = Inr link"
    and "selectGateway E ipFamily dst v4Gw v6Gw (newRoute link scope dst ruleTable) = Inr route"
  shows "AddRoute E ruleTable ipFamily scope iface dst v4Gw v6Gw k =
     (if accepted E (fst (RouteAdd E route k)) then (None, snd (RouteAdd E route k))
      else (Some (FailedAddRouteTable route (the (fst (RouteAdd E route k)))), snd (RouteAdd E route k)))"
  using assms by (simp add: AddRoute_def accepted_def split: prod.splits option.splits)

lemma selectGateway_recording:
  "selectGateway (recording E) ipFamily dst v4Gw v6Gw route = selectGateway E ipFamily dst v4Gw v6Gw route"
  by (simp add: selectGateway_def recording_simps Let_def split: option.splits)

lemma AddRoute_log:
  assumes "LinkByName E iface k = Inr link"
    and "selectGateway E ipFamily dst v4Gw v6Gw (newRoute link scope dst ruleTable) = Inr route"
  shows "snd (snd (AddRoute (recording E) ruleTable ipFamily scope iface dst v4Gw v6Gw (k, log))) =
     log @ [CRouteAdd route]"
  using assms
  by (simp add: AddRoute_def selectGateway_recording recording_simps split: prod.splits option.splits)

lemma newRoute_Gw_None: "(newRoute link scope dst ruleTable)\<lparr>Gw := None\<rparr> = newRoute link scope dst ruleTable"
  by (simp add: newRoute_def)

lemma selectGateway_cases:
  "selectGateway E ipFamily dst v4Gw v6Gw (newRoute link scope dst ruleTable) =
     (if ipFamily = FAMILY_V4 then Inr ((newRoute link scope dst ruleTable)\<lparr>Gw := v4Gw\<rparr>)
      else if ipFamily = FAMILY_V6 then Inr ((newRoute link scope dst ruleTable)\<lparr>Gw := v6Gw\<rparr>)
      else if ipFamily = FAMILY_ALL then
        Inr ((newRoute link scope dst ruleTable)
          \<lparr>Gw := (case dst of
                     None \<Rightarrow> None
                   | Some d \<Rightarrow> if To4 E (IP d) \<noteq> None then v4Gw else v6Gw)\<rparr>)
      else Inl (UnknownIpFamily ipFamily))"
  by (auto simp add: selectGateway_def newRoute_def Let_def split: option.splits)


lemma memEnv_simps:
  "LinkByName memEnv = mem_LinkByName"
  "LinkByIndex memEnv = mem_LinkByIndex"
  "RouteList memEnv = mem_RouteList"
  "RouteAdd memEnv = mem_RouteAdd"
  "RouteDel memEnv = mem_RouteDel"
  "RuleAdd memEnv = mem_RuleAdd"
  "RuleDel memEnv = mem_RuleDel"
  "NewRule memEnv = mem_NewRule"
  "IsExist memEnv = go_IsExist"
  "To4 memEnv = go_To4"
  "Equal memEnv = go_Equal"
  "IPv4zero memEnv = go_IPv4zero"
  "IP_String memEnv = go_IP_String"
  "IPNet_String memEnv = go_IPNet_String"
  by (simp_all add: memEnv_def)

lemma ns0_eth0: "LinkByName memEnv ''eth0'' ns0 = Inr eth0"
  by (simp add: memEnv_simps mem_LinkByName_def ns0_def eth0_def)

text \<open>
  C3 (amended): when the interface name resolves to a link, AddRoute submits exactly one
  route, the route built from the link, scope, destination and table, with its gateway
  chosen by the family: for v4 the IPv4 gateway; for v6 the IPv6 gateway; for "both" with
  a destination that is not nil, the IPv4 gateway when \<open>To4\<close> of the destination's address
  is not nil and the IPv6 gateway otherwise; for "both" with a nil destination, no
  gateway. For any other family the call fails with the unknown-family error and submits
  nothing.
\<close>

theorem AddRoute_gateway_by_family:
  assumes "LinkByName E iface k = Inr link"
  shows "(ipFamily = FAMILY_V4 \<longrightarrow>
           snd (snd (AddRoute (recording E) ruleTable ipFamily scope iface dst v4Gw v6Gw (k, []))) =
             [CRouteAdd ((newRoute link scope dst ruleTable)\<lparr>Gw := v4Gw\<rparr>)])
       \<and> (ipFamily = FAMILY_V6 \<longrightarrow>
           snd (snd (AddRoute (recording E) ruleTable ipFamily scope iface dst v4Gw v6Gw (k, []))) =
             [CRouteAdd ((newRoute link scope dst ruleTable)\<lparr>Gw := v6Gw\<rparr>)])
       \<and> (ipFamily = FAMILY_ALL \<longrightarrow>
           snd (snd (AddRoute (recording E) ruleTable ipFamily scope iface dst v4Gw v6Gw (k, []))) =
             [CRouteAdd ((newRoute link scope dst ruleTable)
                \<lparr>Gw := (case dst of
                           None \<Rightarrow> None
                         | Some d \<Rightarrow> if To4 E (IP d) \<noteq> None then v4Gw else v6Gw)\<rparr>)])
       \<and> (ipFamily \<noteq> FAMILY_V4 \<and> ipFamily \<noteq> FAMILY_V6 \<and> ipFamily \<noteq> FAMILY_ALL \<longrightarrow>
           AddRoute E ruleTable ipFamily scope iface dst v4Gw v6Gw k = (Some (UnknownIpFamily ipFamily), k)
           \<and> snd (snd (AddRoute (recording E) ruleTable ipFamily scope iface dst v4Gw v6Gw (k, []))) = [])"
proof (intro conjI impI)
  assume "ipFamily = FAMILY_V4"
  then have "selectGateway E ipFamily dst v4Gw v6Gw (newRoute link scope dst ruleTable) =
      Inr ((newRoute link scope dst ruleTable)\<lparr>Gw := v4Gw\<rparr>)"
    by (simp add: selectGateway_cases)
  from AddRoute_log [OF assms this]
  show "snd (snd (AddRoute (recording E) ruleTable ipFamily scope iface dst v4Gw v6Gw (k, []))) =
      [CRouteAdd ((newRoute link scope dst ruleTable)\<lparr>Gw := v4Gw\<rparr>)]"
    by simp
next
  assume "ipFamily = FAMILY_V6"
  then have "selectGateway E ipFamily dst v4Gw v6Gw (newRoute link scope dst ruleTable) =
      Inr ((newRoute link scope dst ruleTable)\<lparr>Gw := v6Gw\<rparr>)"
    by (simp add: selectGateway_cases FAMILY_V4_def FAMILY_V6_def)
  from AddRoute_log [OF assms this]
  show "snd (snd (AddRoute (recording E) ruleTable ipFamily scope iface dst v4Gw v6Gw (k, []))) =
      [CRouteAdd ((newRoute link scope dst ruleTable)\<lparr>Gw := v6Gw\<rparr>)]"
    by simp
next
  assume "ipFamily = FAMILY_ALL"
  then have "selectGateway E ipFamily dst v4Gw v6Gw (newRoute link scope dst ruleTable) =
      Inr ((newRoute link scope dst ruleTable)
        \<lparr>Gw := (case dst of None \<Rightarrow> None | Some d \<Rightarrow> if To4 E (IP d) \<noteq> None then v4Gw else v6Gw)\<rparr>)"
    by (simp add: selectGateway_cases FAMILY_V4_def FAMILY_V6_def FAMILY_ALL_def)
  from AddRoute_log [OF assms this]
  show "snd (snd (AddRoute (recording E) ruleTable ipFamily scope iface dst v4Gw v6Gw (k, []))) =
      [CRouteAdd ((newRoute link scope dst ruleTable)
        \<lparr>Gw := (case dst of None \<Rightarrow> None | Some d \<Rightarrow> if To4 E (IP d) \<noteq> None then v4Gw else v6Gw)\<rparr>)]"
    by simp
next
  assume other: "ipFamily \<noteq> FAMILY_V4 \<and> ipFamily \<noteq> FAMILY_V6 \<and> ipFamily \<noteq> FAMILY_ALL"
  then have sel: "selectGateway E ipFamily dst v4Gw v6Gw (newRoute link scope dst ruleTable) =
      Inl (UnknownIpFamily ipFamily)"
    by (simp add: selectGateway_cases)
  show "AddRoute E ruleTable ipFamily scope iface dst v4Gw v6Gw k = (Some (UnknownIpFamily ipFamily), k)"
    using assms sel by (simp add: AddRoute_def)
  show "snd (snd (AddRoute (recording E) ruleTable ipFamily scope iface dst v4Gw v6Gw (k, []))) = []"
    using assms sel by (simp add: AddRoute_def selectGateway_recording recording_simps)
qed

text \<open>
  An instance in the in-memory kernel: family "both" with an IPv4 and with an IPv6
  destination, and the unknown family 7.
\<close>

theorem AddRoute_gateway_by_family_witness:
  "LinkByName memEnv ''eth0'' ns0 = Inr eth0
   \<and> snd (snd (AddRoute (recording memEnv) 100 FAMILY_ALL 0 ''eth0'' (Some net_10_0_0_0_24)
        (Some ip_192_0_2_1) (Some ip_2001_db8_1) (ns0, []))) =
      [CRouteAdd ((newRoute eth0 0 (Some net_10_0_0_0_24) 100)\<lparr>Gw := Some ip_192_0_2_1\<rparr>)]
   \<and> snd (snd (AddRoute (recording memEnv) 100 FAMILY_ALL 0 ''eth0'' (Some net_2001_db8_32)
        (Some ip_192_0_2_1) (Some ip_2001_db8_1) (ns0, []))) =
      [CRouteAdd ((newRoute eth0 0 (Some net_2001_db8_32) 100)\<lparr>Gw := Some ip_2001_db8_1\<rparr>)]
   \<and> AddRoute memEnv 100 7 0 ''eth0'' (Some net_10_0_0_0_24) (Some ip_192_0_2_1) None ns0 =
      (Some (UnknownIpFamily 7), ns0)"
  using AddRoute_gateway_by_family [OF ns0_eth0, of FAMILY_ALL 100 0 "Some net_10_0_0_0_24"
      "Some ip_192_0_2_1" "Some ip_2001_db8_1"]
    AddRoute_gateway_by_family [OF ns0_eth0, of FAMILY_ALL 100 0 "Some net_2001_db8_32"
      "Some ip_192_0_2_1" "Some ip_2001_db8_1"]
    AddRoute_gateway_by_family [OF ns0_eth0, of 7 100 0 "Some net_10_0_0_0_24" "Some ip_192_0_2_1" None]
    ns0_eth0
  by (simp add: memEnv_simps go_To4_def net_10_0_0_0_24_def net_2001_db8_32_def v4InV6Prefix_def
      FAMILY_V4_def FAMILY_V6_def FAMILY_ALL_def)

text \<open>
  C3 as stated fails for family "both" with a nil destination: a nil destination does not
  parse as an IPv4 address, so the claim selects the IPv6 gateway, but the route that is
  submitted has no gateway.
\<close>

theorem AddRoute_both_nil_destination_counterexample:
  "LinkByName memEnv ''eth0'' ns0 = Inr eth0
   \<and> snd (snd (AddRoute (recording memEnv) 100 FAMILY_ALL 0 ''eth0'' None
        (Some ip_192_0_2_1) (Some ip_2001_db8_1) (ns0, []))) = [CRouteAdd (newRoute eth0 0 None 100)]
   \<and> Gw (newRoute eth0 0 None 100) = None
   \<and> Gw (newRoute eth0 0 None 100) \<noteq> Some ip_2001_db8_1"
proof -
  have "selectGateway memEnv FAMILY_ALL None (Some ip_192_0_2_1) (Some ip_2001_db8_1)
      (newRoute eth0 0 None 100) = Inr (newRoute eth0 0 None 100)"
    by (simp add: selectGateway_cases FAMILY_V4_def FAMILY_V6_def FAMILY_ALL_def newRoute_Gw_None)
  from AddRoute_log [OF ns0_eth0 this] ns0_eth0
  show ?thesis by (simp add: newRoute_def)
qed

text \<open>
  C10: for family "both" and a nil destination, whatever the two gateways are, the route
  AddRoute submits is the route built from the link, scope and table, whose gateway is
  nil; when the interface does not resolve, nothing is submitted.
\<close>

theorem AddRoute_both_nil_destination_no_gateway:
  "snd (snd (AddRoute (recording E) ruleTable FAMILY_ALL scope iface None v4Gw v6Gw (k, []))) =
     (case LinkByName E iface k of
        Inl err \<Rightarrow> []
      | Inr link \<Rightarrow> [CRouteAdd (newRoute link scope None ruleTable)])
   \<and> Gw (newRoute link scope None ruleTable) = None"
proof
  show "snd (snd (AddRoute (recording E) ruleTable FAMILY_ALL scope iface None v4Gw v6Gw (k, []))) =
     (case LinkByName E iface k of
        Inl err \<Rightarrow> []
      | Inr link \<Rightarrow> [CRouteAdd (newRoute link scope None ruleTable)])"
  proof (cases "LinkByName E iface k")
    case (Inl err)
    then show ?thesis by (simp add: AddRoute_def recording_simps)
  next
    case (Inr l)
    have "selectGateway E FAMILY_ALL None v4Gw v6Gw (newRoute l scope None ruleTable) =
        Inr (newRoute l scope None ruleTable)"
      by (simp add: selectGateway_cases FAMILY_V4_def FAMILY_V6_def FAMILY_ALL_def newRoute_Gw_None)
    from AddRoute_log [OF Inr this] Inr show ?thesis by simp
  qed
  show "Gw (newRoute link scope None ruleTable) = None"
    by (simp add: newRoute_def)
qed

text \<open>The instance for \<open>eth0\<close> with both gateways given.\<close>

theorem AddRoute_both_nil_destination_no_gateway_witness:
  "snd (snd (AddRoute (recording memEnv) 100 FAMILY_ALL 0 ''eth0'' None (Some ip_192_0_2_1)
      (Some ip_2001_db8_1) (ns0, []))) = [CRouteAdd (newRoute eth0 0 None 100)]
   \<and> Gw (newRoute eth0 0 None 100) = None"
  using AddRoute_both_nil_destination_no_gateway [of memEnv 100 0 "''eth0''" "Some ip_192_0_2_1"
      "Some ip_2001_db8_1" ns0 eth0] ns0_eth0
  by simp

text \<open>
  C5: AddRoute returns no error when the kernel's answer to the add is no error or an error
  that \<open>os.IsExist\<close> accepts, and returns the failed-add error carrying the route and the
  kernel's error for every other answer. Hence, in every kernel that resolves the
  interface as before after an add and answers the repeated add of a route with no error
  or with "exists", a second AddRoute with the arguments of a successful first one succeeds.
\<close>

theorem AddRoute_twice:
  assumes stable: "\<forall>r s. LinkByName E iface (snd (RouteAdd E r s)) = LinkByName E iface s"
    and again: "\<forall>r s. accepted E (fst (RouteAdd E r s)) \<longrightarrow>
                  accepted E (fst (RouteAdd E r (snd (RouteAdd E r s))))"
  shows "(fst (AddRoute E ruleTable ipFamily scope iface dst v4Gw v6Gw k) = None \<longrightarrow>
          fst (AddRoute E ruleTable ipFamily scope iface dst v4Gw v6Gw
                 (snd (AddRoute E ruleTable ipFamily scope iface dst v4Gw v6Gw k))) = None)
       \<and> (LinkByName E iface k = Inr link \<longrightarrow>
          selectGateway E ipFamily dst v4Gw v6Gw (newRoute link scope dst ruleTable) = Inr route \<longrightarrow>
          AddRoute E ruleTable ipFamily scope iface dst v4Gw v6Gw k =
            (case RouteAdd E route k of
               (None, k') \<Rightarrow> (None, k')
             | (Some err, k') \<Rightarrow>
                 if IsExist E err then (None, k') else (Some (FailedAddRouteTable route err), k')))"
proof (intro conjI impI)
  assume first: "fst (AddRoute E ruleTable ipFamily scope iface dst v4Gw v6Gw k) = None"
  from first obtain l where l: "LinkByName E iface k = Inr l"
    by (cases "LinkByName E iface k") (simp_all add: AddRoute_def)
  from first l obtain r where r: "selectGateway E ipFamily dst v4Gw v6Gw (newRoute l scope dst ruleTable) = Inr r"
    by (cases "selectGateway E ipFamily dst v4Gw v6Gw (newRoute l scope dst ruleTable)")
      (simp_all add: AddRoute_def)
  let ?k1 = "snd (RouteAdd E r k)"
  from first have ok: "accepted E (fst (RouteAdd E r k))"
    by (simp add: AddRoute_resolved [OF l r] split: if_splits)
  then have k1: "AddRoute E ruleTable ipFamily scope iface dst v4Gw v6Gw k = (None, ?k1)"
    by (simp add: AddRoute_resolved [OF l r])
  from stable l have l1: "LinkByName E iface ?k1 = Inr l"
    by simp
  from again ok have "accepted E (fst (RouteAdd E r ?k1))"
    by blast
  then have "fst (AddRoute E ruleTable ipFamily scope iface dst v4Gw v6Gw ?k1) = None"
    by (simp add: AddRoute_resolved [OF l1 r])
  with k1 show "fst (AddRoute E ruleTable ipFamily scope iface dst v4Gw v6Gw
      (snd (AddRoute E ruleTable ipFamily scope iface dst v4Gw v6Gw k))) = None"
    by simp
next
  assume "LinkByName E iface k = Inr link"
    and "selectGateway E ipFamily dst v4Gw v6Gw (newRoute link scope dst ruleTable) = Inr route"
  then show "AddRoute E ruleTable ipFamily scope iface dst v4Gw v6Gw k =
      (case RouteAdd E route k of
         (None, k') \<Rightarrow> (None, k')
       | (Some err, k') \<Rightarrow>
           if IsExist E err then (None, k') else (Some (FailedAddRouteTable route err), k'))"
    by (simp add: AddRoute_def split: prod.splits option.splits)
qed

text \<open>The in-memory kernel is such a kernel; there the second add is answered with EEXIST.\<close>

lemma mem_RouteAdd_links: "ns_links (snd (mem_RouteAdd r s)) = ns_links s"
  by (simp add: mem_RouteAdd_def)

lemma mem_stable: "\<forall>r s. LinkByName memEnv iface (snd (RouteAdd memEnv r s)) = LinkByName memEnv iface s"
  by (simp add: memEnv_simps mem_LinkByName_def mem_RouteAdd_links)

lemma mem_again: "\<forall>r s. accepted memEnv (fst (RouteAdd memEnv r s)) \<longrightarrow>
    accepted memEnv (fst (RouteAdd memEnv r (snd (RouteAdd memEnv r s))))"
  by (simp add: memEnv_simps accepted_def mem_RouteAdd_def)

theorem AddRoute_twice_witness:
  "fst (AddRoute memEnv 100 FAMILY_V4 0 ''eth0'' (Some net_10_0_0_0_24) (Some ip_192_0_2_1) None ns0) = None
   \<and> fst (AddRoute memEnv 100 FAMILY_V4 0 ''eth0'' (Some net_10_0_0_0_24) (Some ip_192_0_2_1) None
       (snd (AddRoute memEnv 100 FAMILY_V4 0 ''eth0'' (Some net_10_0_0_0_24) (Some ip_192_0_2_1) None
          ns0))) = None
   \<and> ns_routes (snd (AddRoute memEnv 100 FAMILY_V4 0 ''eth0'' (Some net_10_0_0_0_24) (Some ip_192_0_2_1)
       None ns0)) = [(newRoute eth0 0 (Some net_10_0_0_0_24) 100)\<lparr>Gw := Some ip_192_0_2_1\<rparr>]"
proof -
  have sel: "selectGateway memEnv FAMILY_V4 (Some net_10_0_0_0_24) (Some ip_192_0_2_1) None
      (newRoute eth0 0 (Some net_10_0_0_0_24) 100) =
      Inr ((newRoute eth0 0 (Some net_10_0_0_0_24) 100)\<lparr>Gw := Some ip_192_0_2_1\<rparr>)"
    by (simp add: selectGateway_cases)
  note inst = AddRoute_twice [where E = memEnv and iface = "''eth0''" and ruleTable = 100
      and ipFamily = FAMILY_V4 and scope = 0 and dst = "Some net_10_0_0_0_24"
      and ?v4Gw.0 = "Some ip_192_0_2_1" and ?v6Gw.0 = None and k = ns0 and link = eth0
      and route = "(newRoute eth0 0 (Some net_10_0_0_0_24) 100)\<lparr>Gw := Some ip_192_0_2_1\<rparr>",
      OF mem_stable mem_again]
  from inst ns0_eth0 sel
  have first: "AddRoute memEnv 100 FAMILY_V4 0 ''eth0'' (Some net_10_0_0_0_24) (Some ip_192_0_2_1) None ns0 =
     (None, ns0\<lparr>ns_routes := [(newRoute eth0 0 (Some net_10_0_0_0_24) 100)\<lparr>Gw := Some ip_192_0_2_1\<rparr>]\<rparr>)"
    by (simp add: memEnv_simps mem_RouteAdd_def ns0_def)
  with inst show ?thesis
    by simp
qed

text \<open>
  C9 (amended): AddToRuleTable and DelToRuleTable, called with the same destination
  network and table, submit the same rule descriptor: the default rule of the library with
  its table and destination set to the arguments, the first to \<open>RuleAdd\<close> and the second to
  \<open>RuleDel\<close>. Hence, in every kernel where deleting the descriptor that was just added
  succeeds and leaves what is observed of the rule table (\<open>present\<close>) as it was before the
  add, a successful add followed by the delete leaves a rule matching that destination
  and table exactly if there was one before the add: none remains if none was there.
\<close>

theorem DelToRuleTable_after_AddToRuleTable:
  fixes present :: "Rule \<Rightarrow> 'k \<Rightarrow> bool"
  assumes undo: "\<forall>q s. fst (RuleAdd E q s) = None \<longrightarrow>
      fst (RuleDel E q (snd (RuleAdd E q s))) = None
      \<and> (\<forall>p. present p (snd (RuleDel E q (snd (RuleAdd E q s)))) = present p s)"
  shows "snd (snd (AddToRuleTable (recording E) dst ruleTable (k, []))) =
           [CRuleAdd ((NewRule E)\<lparr>rule_Table := ruleTable, rule_Dst := dst\<rparr>)]
       \<and> snd (snd (DelToRuleTable (recording E) dst ruleTable (k', []))) =
           [CRuleDel ((NewRule E)\<lparr>rule_Table := ruleTable, rule_Dst := dst\<rparr>)]
       \<and> rule_Dst ((NewRule E)\<lparr>rule_Table := ruleTable, rule_Dst := dst\<rparr>) = dst
       \<and> rule_Table ((NewRule E)\<lparr>rule_Table := ruleTable, rule_Dst := dst\<rparr>) = ruleTable
       \<and> (fst (AddToRuleTable E dst ruleTable k) = None \<longrightarrow>
          fst (DelToRuleTable E dst ruleTable (snd (AddToRuleTable E dst ruleTable k))) = None
          \<and> present ((NewRule E)\<lparr>rule_Table := ruleTable, rule_Dst := dst\<rparr>)
               (snd (DelToRuleTable E dst ruleTable (snd (AddToRuleTable E dst ruleTable k)))) =
             present ((NewRule E)\<lparr>rule_Table := ruleTable, rule_Dst := dst\<rparr>) k)"
proof (intro conjI impI)
  let ?q = "(NewRule E)\<lparr>rule_Table := ruleTable, rule_Dst := dst\<rparr>"
  assume "fst (AddToRuleTable E dst ruleTable k) = None"
  then have added: "fst (RuleAdd E ?q k) = None"
    by (simp add: AddToRuleTable_def verbatim_def)
  have state: "snd (AddToRuleTable E dst ruleTable k) = snd (RuleAdd E ?q k)"
    by (simp add: AddToRuleTable_def verbatim_def)
  from undo added
  have del: "fst (RuleDel E ?q (snd (RuleAdd E ?q k))) = None"
    and same: "present ?q (snd (RuleDel E ?q (snd (RuleAdd E ?q k)))) = present ?q k"
    by blast+
  from del state
  show "fst (DelToRuleTable E dst ruleTable (snd (AddToRuleTable E dst ruleTable k))) = None"
    by (simp add: DelToRuleTable_def verbatim_def)
  from same state
  show "present ?q (snd (DelToRuleTable E dst ruleTable (snd (AddToRuleTable E dst ruleTable k)))) =
      present ?q k"
    by (simp add: DelToRuleTable_def verbatim_def)
qed (simp_all add: AddToRuleTable_def DelToRuleTable_def verbatim_def recording_simps)

text \<open>
  In the in-memory kernel the delete of a rule just added takes that rule out again. From
  a namespace without rules, for the rule to 10.0.0.0/24 in table 100:
\<close>

lemma sameMatch_refl: "sameMatch q q"
  by (simp add: sameMatch_def)

lemma mem_undo:
  "\<forall>q s. fst (RuleAdd memEnv q s) = None \<longrightarrow>
      fst (RuleDel memEnv q (snd (RuleAdd memEnv q s))) = None
      \<and> (\<forall>p. list_ex (sameMatch p) (ns_rules (snd (RuleDel memEnv q (snd (RuleAdd memEnv q s))))) =
              list_ex (sameMatch p) (ns_rules s))"
  by (simp add: memEnv_simps mem_RuleAdd_def mem_RuleDel_def sameMatch_refl)

theorem DelToRuleTable_after_AddToRuleTable_witness:
  "fst (AddToRuleTable memEnv (Some net_10_0_0_0_24) 100 ns0) = None
   \<and> \<not> list_ex (sameMatch rule_10_0_0_0_24) (ns_rules ns0)
   \<and> fst (DelToRuleTable memEnv (Some net_10_0_0_0_24) 100
        (snd (AddToRuleTable memEnv (Some net_10_0_0_0_24) 100 ns0))) = None
   \<and> \<not> list_ex (sameMatch rule_10_0_0_0_24)
        (ns_rules (snd (DelToRuleTable memEnv (Some net_10_0_0_0_24) 100
           (snd (AddToRuleTable memEnv (Some net_10_0_0_0_24) 100 ns0)))))
   \<and> snd (snd (AddToRuleTable (recording memEnv) (Some net_10_0_0_0_24) 100 (ns0, []))) =
        [CRuleAdd rule_10_0_0_0_24]
   \<and> snd (snd (DelToRuleTable (recording memEnv) (Some net_10_0_0_0_24) 100 (ns0, []))) =
        [CRuleDel rule_10_0_0_0_24]"
proof -
  have a: "fst (AddToRuleTable memEnv (Some net_10_0_0_0_24) 100 ns0) = None"
    by (simp add: AddToRuleTable_def verbatim_def memEnv_simps mem_RuleAdd_def)
  have b: "\<not> list_ex (sameMatch rule_10_0_0_0_24) (ns_rules ns0)"
    by (simp add: ns0_def)
  from DelToRuleTable_after_AddToRuleTable [where E = memEnv
      and present = "\<lambda>q s. list_ex (sameMatch q) (ns_rules s)" and dst = "Some net_10_0_0_0_24"
      and ruleTable = 100 and k = ns0 and k' = ns0, OF mem_undo] a b
  show ?thesis by (simp add: memEnv_simps rule_10_0_0_0_24_def)
qed

text \<open>
  C9 as stated fails from a namespace that already holds a rule to 10.0.0.0/24 in table
  100: the add succeeds and puts a second one beside it, the delete succeeds and removes
  one, and a rule matching that destination and table remains.
\<close>

theorem DelToRuleTable_leaves_earlier_rule_counterexample:
  "fst (AddToRuleTable memEnv (Some net_10_0_0_0_24) 100 nsRuleHeld) = None
   \<and> fst (DelToRuleTable memEnv (Some net_10_0_0_0_24) 100
        (snd (AddToRuleTable memEnv (Some net_10_0_0_0_24) 100 nsRuleHeld))) = None
   \<and> ns_rules (snd (DelToRuleTable memEnv (Some net_10_0_0_0_24) 100
        (snd (AddToRuleTable memEnv (Some net_10_0_0_0_24) 100 nsRuleHeld)))) =
      [rule_10_0_0_0_24\<lparr>rule_Priority := 32765\<rparr>]
   \<and> rule_Dst (rule_10_0_0_0_24\<lparr>rule_Priority := 32765\<rparr>) = Some net_10_0_0_0_24
   \<and> rule_Table (rule_10_0_0_0_24\<lparr>rule_Priority := 32765\<rparr>) = 100"
  by (simp add: AddToRuleTable_def DelToRuleTable_def verbatim_def memEnv_simps mem_RuleAdd_def
      mem_RuleDel_def nsRuleHeld_def sameMatch_refl rule_10_0_0_0_24_def)

lemma collectGateways_concat:
  "collectGateways E link routes gws =
     gws @ concat (map (\<lambda>route.
       if LinkIndex route = Index link
       then (if isDefaultDst E (Dst route) then [IP_String E (Gw route)] else [])
       else (case find (\<lambda>v. nh_LinkIndex v = Index link) (MultiPath route) of
               Some v \<Rightarrow> [IP_String E (nh_Gw v)]
             | None \<Rightarrow> [])) routes)"
proof (induction routes arbitrary: gws)
  case Nil
  show ?case by simp
next
  case (Cons route routes)
  show ?case
  proof (cases "MultiPath route")
    case Nil
    with Cons show ?thesis by simp
  next
    case (Cons v vs)
    with Cons.IH show ?thesis by (simp split: option.splits)
  qed
qed

lemma GetDefaultGatewayByName_listed:
  assumes "LinkByName E iface k = Inr link" and "RouteList E None ipfamily k = Inr routes"
  shows "GetDefaultGatewayByName E iface ipfamily k = Inr (collectGateways E link routes [])"
  using assms by (simp add: GetDefaultGatewayByName_def GetRoutesByName_def)

lemma gatewaysAsStated_owned:
  assumes "ownedPerSegment idx route"
  shows "gatewaysAsStated E idx route =
     (if LinkIndex route = idx
      then (if isDefaultDst E (Dst route) then [IP_String E (Gw route)] else [])
      else (case find (\<lambda>v. nh_LinkIndex v = idx) (MultiPath route) of
              Some v \<Rightarrow> [IP_String E (nh_Gw v)]
            | None \<Rightarrow> []))"
  using assms by (cases "MultiPath route") (auto simp add: gatewaysAsStated_def ownedPerSegment_def)

text \<open>
  C2: when the interface name resolves to a link and the unfiltered route list of the
  family is returned, where no listed route with segments is bound to the interface at
  the top level, GetDefaultGatewayByName returns exactly these gateways, in the order of
  the list: for each route whose link index is the interface's and whose destination is
  nil or equal to the all-zeros IPv4 address, the printed top-level gateway; for each
  other route that has segments, the printed gateway of its first segment on the
  interface, when there is one. In particular, when the only listed route is a shared
  multipath route on another link index whose first segment on the interface has the
  gateway printed 2001:db8::1, the result is that one string.
\<close>

theorem GetDefaultGatewayByName_gateways:
  assumes link: "LinkByName E iface k = Inr link"
    and list: "RouteList E None ipfamily k = Inr routes"
    and owned: "\<forall>route\<in>set routes. ownedPerSegment (Index link) route"
  shows "GetDefaultGatewayByName E iface ipfamily k =
           Inr (concat (map (gatewaysAsStated E (Index link)) routes))
       \<and> gatewaysAsStated E idx route =
           (if LinkIndex route = idx \<and> isDefaultDst E (Dst route) then [IP_String E (Gw route)]
            else if MultiPath route \<noteq> [] then
              (case find (\<lambda>v. nh_LinkIndex v = idx) (MultiPath route) of
                 Some v \<Rightarrow> [IP_String E (nh_Gw v)]
               | None \<Rightarrow> [])
            else [])
       \<and> isDefaultDst E dst = (case dst of None \<Rightarrow> True | Some d \<Rightarrow> Equal E (IP d) (IPv4zero E))
       \<and> (routes = [shared] \<longrightarrow> LinkIndex shared \<noteq> Index link \<longrightarrow>
          find (\<lambda>v. nh_LinkIndex v = Index link) (MultiPath shared) = Some hop \<longrightarrow>
          IP_String E (nh_Gw hop) = ''2001:db8::1'' \<longrightarrow>
          GetDefaultGatewayByName E iface ipfamily k = Inr [''2001:db8::1''])"
proof -
  have "map (gatewaysAsStated E (Index link)) routes =
      map (\<lambda>route.
        if LinkIndex route = Index link
        then (if isDefaultDst E (Dst route) then [IP_String E (Gw route)] else [])
        else (case find (\<lambda>v. nh_LinkIndex v = Index link) (MultiPath route) of
                Some v \<Rightarrow> [IP_String E (nh_Gw v)]
              | None \<Rightarrow> [])) routes"
    using owned by (intro map_cong refl gatewaysAsStated_owned) simp
  then have eq: "concat (map (gatewaysAsStated E (Index link)) routes) =
      concat (map (\<lambda>route.
        if LinkIndex route = Index link
        then (if isDefaultDst E (Dst route) then [IP_String E (Gw route)] else [])
        else (case find (\<lambda>v. nh_LinkIndex v = Index link) (MultiPath route) of
                Some v \<Rightarrow> [IP_String E (nh_Gw v)]
              | None \<Rightarrow> [])) routes)"
    by (rule arg_cong)
  have "GetDefaultGatewayByName E iface ipfamily k =
      Inr (concat (map (gatewaysAsStated E (Index link)) routes))"
    unfolding eq
    by (simp add: GetDefaultGatewayByName_listed [OF link list] collectGateways_concat)
  moreover have "routes = [shared] \<longrightarrow> LinkIndex shared \<noteq> Index link \<longrightarrow>
      find (\<lambda>v. nh_LinkIndex v = Index link) (MultiPath shared) = Some hop \<longrightarrow>
      IP_String E (nh_Gw hop) = ''2001:db8::1'' \<longrightarrow>
      GetDefaultGatewayByName E iface ipfamily k = Inr [''2001:db8::1'']"
    by (simp add: GetDefaultGatewayByName_listed [OF link list] collectGateways_concat)
  ultimately show ?thesis
    by (simp add: gatewaysAsStated_def isDefaultDst_def)
qed

text \<open>
  The instance: \<open>net1\<close> is the second nexthop, with gateway 2001:db8::1, of the default
  route it shares with \<open>eth0\<close>.
\<close>

lemma nsShared_net1: "LinkByName memEnv ''net1'' nsShared = Inr net1"
  by (simp add: memEnv_simps mem_LinkByName_def nsShared_def eth0_def net1_def)

lemma nsShared_list: "RouteList memEnv None FAMILY_V6 nsShared = Inr [sharedDefault]"
  by (simp add: memEnv_simps mem_RouteList_def nsShared_def sharedDefault_def FAMILY_V6_def)

lemma str_2001_db8_1: "go_IP_String (Some ip_2001_db8_1) = ''2001:db8::1''"
  by (simp add: go_IP_String_def string6_def ip_2001_db8_1_def zeroRun_def go_To4_def
      v4InV6Prefix_def appendHex_def hexDigit_def)

lemma str_192_0_2_1: "go_IP_String (Some ip_192_0_2_1) = ''192.0.2.1''"
  by (simp add: go_IP_String_def ip_192_0_2_1_def go_To4_def uitoa_def decDigit_def)

lemma nsShared_owned: "\<forall>route\<in>set [sharedDefault]. ownedPerSegment (Index net1) route"
  by (simp add: ownedPerSegment_def sharedDefault_def net1_def)

theorem GetDefaultGatewayByName_gateways_witness:
  "LinkByName memEnv ''net1'' nsShared = Inr net1
   \<and> RouteList memEnv None FAMILY_V6 nsShared = Inr [sharedDefault]
   \<and> ownedPerSegment (Index net1) sharedDefault
   \<and> GetDefaultGatewayByName memEnv ''net1'' FAMILY_V6 nsShared = Inr [''2001:db8::1'']"
  using GetDefaultGatewayByName_gateways [where E = memEnv and iface = "''net1''" and k = nsShared
      and link = net1 and ipfamily = FAMILY_V6 and routes = "[sharedDefault]"
      and shared = sharedDefault and hop = "\<lparr>nh_LinkIndex = 3, nh_Gw = Some ip_2001_db8_1\<rparr>",
      OF nsShared_net1 nsShared_list nsShared_owned]
    nsShared_net1 nsShared_list nsShared_owned str_2001_db8_1
  by (simp add: sharedDefault_def net1_def memEnv_simps)

text \<open>
  MoveRouteTable. The loop over a list in two parts runs the second part in the state the
  first part leaves, unless the first part fails; so a listed route that the loop reaches
  is handled as the head of the remaining list.
\<close>

lemma moveRoutes_append:
  "moveRoutes E link src dst (pre @ post) k =
     (case moveRoutes E link src dst pre k of
        (None, k1) \<Rightarrow> moveRoutes E link src dst post k1
      | (Some e, k1) \<Rightarrow> (Some e, k1))"
  by (induction pre arbitrary: k) (simp_all split: prod.splits option.splits)

lemma MoveRouteTable_reaches:
  assumes "LinkByName E iface k = Inr link"
    and "RouteList E None ipfamily k = Inr (pre @ route # post)"
    and "moveRoutes E link src dst pre k = (None, k1)"
  shows "MoveRouteTable E iface src dst ipfamily k = moveRoutes E link src dst (route # post) k1"
  using assms by (simp add: MoveRouteTable_def moveRoutes_append)

lemma moveRoutes_nothing:
  assumes "\<forall>r\<in>set routes. Table r = src \<longrightarrow>
      LinkIndex r \<noteq> Index link \<and> (\<forall>v\<in>set (MultiPath r). nh_LinkIndex v \<noteq> Index link)"
  shows "moveRoutes E link src dst routes k = (None, k)"
  using assms
proof (induction routes)
  case Nil
  show ?case by simp
next
  case (Cons route routes)
  then have rest: "moveRoutes E link src dst routes k = (None, k)"
    by simp
  show ?case
  proof (cases "Table route = src")
    case False
    with rest show ?thesis by simp
  next
    case True
    with Cons.prems have other: "LinkIndex route \<noteq> Index link"
      and segs: "\<forall>v\<in>set (MultiPath route). nh_LinkIndex v \<noteq> Index link"
      by simp_all
    from segs have "find (\<lambda>v. nh_LinkIndex v = Index link) (MultiPath route) = None"
      by (simp add: find_None_iff)
    with True other rest show ?thesis by simp
  qed
qed


text \<open>
  C1 (amended): let the interface resolve to a link, and let the loop of MoveRouteTable
  reach a listed route that is in the source table, whose destination does not print as
  fe80::/64, whose top-level link index is not the interface's and that has segments.
  If the first segment on the interface is \<open>v\<close>, the function builds a new route without
  segments from the link index and gateway of \<open>v\<close> in the destination table, and a deletion
  descriptor with the same link index and gateway in the source table; it deletes the
  descriptor first and fails if that fails; then it adds the new route, goes on with the
  remaining routes when the add succeeds or fails with an error \<open>os.IsExist\<close> accepts, and
  fails otherwise. If no segment is on the interface, the route is skipped: the function
  goes on with the remaining routes in the same state.
\<close>

theorem MoveRouteTable_multipath:
  assumes link: "LinkByName E iface k = Inr link"
    and list: "RouteList E None ipfamily k = Inr (pre @ route # post)"
    and before: "moveRoutes E link src dst pre k = (None, k1)"
    and tbl: "Table route = src"
    and ll: "IPNet_String E (Dst route) \<noteq> ''fe80::/64''"
    and other: "LinkIndex route \<noteq> Index link"
    and multi: "MultiPath route \<noteq> []"
  shows "(find (\<lambda>v. nh_LinkIndex v = Index link) (MultiPath route) = Some v \<longrightarrow>
           MoveRouteTable E iface src dst ipfamily k =
             (case RouteDel E (deletedRoute v src) k1 of
                (Some err, k2) \<Rightarrow> (Some (FailedRouteDelIPv6 route err), k2)
              | (None, k2) \<Rightarrow>
                 (case RouteAdd E (generatedRoute v dst route) k2 of
                    (Some err, k3) \<Rightarrow>
                      if IsExist E err then moveRoutes E link src dst post k3
                      else (Some (FailedRouteAddIPv6 route err), k3)
                  | (None, k3) \<Rightarrow> moveRoutes E link src dst post k3))
           \<and> nh_LinkIndex v = Index link
           \<and> LinkIndex (generatedRoute v dst route) = nh_LinkIndex v
           \<and> Gw (generatedRoute v dst route) = nh_Gw v
           \<and> Table (generatedRoute v dst route) = dst
           \<and> MultiPath (generatedRoute v dst route) = []
           \<and> LinkIndex (deletedRoute v src) = nh_LinkIndex v
           \<and> Gw (deletedRoute v src) = nh_Gw v
           \<and> Table (deletedRoute v src) = src)
       \<and> (find (\<lambda>v. nh_LinkIndex v = Index link) (MultiPath route) = None \<longrightarrow>
           MoveRouteTable E iface src dst ipfamily k = moveRoutes E link src dst post k1)
       \<and> (find (\<lambda>v. nh_LinkIndex v = Index link) (MultiPath route) = None) =
           (\<not> list_ex (\<lambda>v. nh_LinkIndex v = Index link) (MultiPath route))"
proof (intro conjI impI)
  assume some: "find (\<lambda>v. nh_LinkIndex v = Index link) (MultiPath route) = Some v"
  from some show "nh_LinkIndex v = Index link"
    by (auto simp add: find_Some_iff)
  from some tbl ll other multi
  show "MoveRouteTable E iface src dst ipfamily k =
      (case RouteDel E (deletedRoute v src) k1 of
         (Some err, k2) \<Rightarrow> (Some (FailedRouteDelIPv6 route err), k2)
       | (None, k2) \<Rightarrow>
          (case RouteAdd E (generatedRoute v dst route) k2 of
             (Some err, k3) \<Rightarrow>
               if IsExist E err then moveRoutes E link src dst post k3
               else (Some (FailedRouteAddIPv6 route err), k3)
           | (None, k3) \<Rightarrow> moveRoutes E link src dst post k3))"
    by (simp add: MoveRouteTable_reaches [OF link list before] split: prod.splits option.splits)
next
  assume "find (\<lambda>v. nh_LinkIndex v = Index link) (MultiPath route) = None"
  with tbl ll other multi
  show "MoveRouteTable E iface src dst ipfamily k = moveRoutes E link src dst post k1"
    by (simp add: MoveRouteTable_reaches [OF link list before])
next
  show "(find (\<lambda>v. nh_LinkIndex v = Index link) (MultiPath route) = None) =
      (\<not> list_ex (\<lambda>v. nh_LinkIndex v = Index link) (MultiPath route))"
    by (auto simp add: find_None_iff list_ex_iff)
qed (simp_all add: generatedRoute_def deletedRoute_def)

text \<open>
  The instance: \<open>net1\<close> takes its nexthop of the default route shared with \<open>eth0\<close> from the
  main table 254 to table 100.
\<close>

lemma str_nil: "go_IPNet_String None = ''<nil>''"
  by (simp add: go_IPNet_String_def)

lemma str_fe80_64: "go_IPNet_String (Some net_fe80_64) = ''fe80::/64''"
  by (simp add: go_IPNet_String_def networkNumberAndMask_def go_IP_String_def string6_def
      net_fe80_64_def zeroRun_def go_To4_def v4InV6Prefix_def appendHex_def hexDigit_def uitoa_def
      decDigit_def)

lemma nsShared_list_any: "RouteList memEnv None FAMILY_V6 nsShared = Inr ([] @ sharedDefault # [])"
  using nsShared_list by simp

theorem MoveRouteTable_multipath_witness:
  "LinkByName memEnv ''net1'' nsShared = Inr net1
   \<and> RouteList memEnv None FAMILY_V6 nsShared = Inr [sharedDefault]
   \<and> Table sharedDefault = 254
   \<and> IPNet_String memEnv (Dst sharedDefault) \<noteq> ''fe80::/64''
   \<and> LinkIndex sharedDefault \<noteq> Index net1
   \<and> find (\<lambda>v. nh_LinkIndex v = Index net1) (MultiPath sharedDefault) = Some hopNet1
   \<and> MoveRouteTable memEnv ''net1'' 254 100 FAMILY_V6 nsShared =
       (None, nsShared\<lparr>ns_routes := [generatedRoute hopNet1 100 sharedDefault]\<rparr>)"
proof -
  have tbl: "Table sharedDefault = 254"
    by (simp add: sharedDefault_def)
  have ll: "IPNet_String memEnv (Dst sharedDefault) \<noteq> ''fe80::/64''"
    by (simp add: sharedDefault_def memEnv_simps str_nil)
  have other: "LinkIndex sharedDefault \<noteq> Index net1"
    by (simp add: sharedDefault_def net1_def)
  have multi: "MultiPath sharedDefault \<noteq> []"
    by (simp add: sharedDefault_def)
  have hop: "find (\<lambda>v. nh_LinkIndex v = Index net1) (MultiPath sharedDefault) = Some hopNet1"
    by (simp add: sharedDefault_def net1_def hopNet1_def)
  have start: "moveRoutes memEnv net1 254 100 [] nsShared = (None, nsShared)"
    by simp
  have del: "RouteDel memEnv (deletedRoute hopNet1 254) nsShared = (None, nsShared\<lparr>ns_routes := []\<rparr>)"
    by (simp add: memEnv_simps mem_RouteDel_def selects_def deletedRoute_def hopNet1_def
        nsShared_def sharedDefault_def)
  have add: "RouteAdd memEnv (generatedRoute hopNet1 100 sharedDefault) (nsShared\<lparr>ns_routes := []\<rparr>) =
      (None, nsShared\<lparr>ns_routes := [generatedRoute hopNet1 100 sharedDefault]\<rparr>)"
    by (simp add: memEnv_simps mem_RouteAdd_def nsShared_def)
  from MoveRouteTable_multipath [OF nsShared_net1 nsShared_list_any start tbl ll other multi,
      where v = hopNet1] hop del add
  have "MoveRouteTable memEnv ''net1'' 254 100 FAMILY_V6 nsShared =
       (None, nsShared\<lparr>ns_routes := [generatedRoute hopNet1 100 sharedDefault]\<rparr>)"
    by simp
  with nsShared_net1 nsShared_list tbl ll other hop show ?thesis
    by simp
qed

text \<open>
  C1 as stated fails for a multipath route to fe80::/64: it is in the source table, its
  top-level link index is not the interface's, it has a segment on the interface, and yet
  the function submits neither a deletion nor an addition.
\<close>

theorem MoveRouteTable_link_local_multipath_counterexample:
  "LinkByName memEnv ''net1'' nsLinkLocalShared = Inr net1
   \<and> RouteList memEnv None FAMILY_V6 nsLinkLocalShared = Inr [linkLocalShared]
   \<and> Table linkLocalShared = 254
   \<and> LinkIndex linkLocalShared \<noteq> Index net1
   \<and> MultiPath linkLocalShared \<noteq> []
   \<and> find (\<lambda>v. nh_LinkIndex v = Index net1) (MultiPath linkLocalShared) = Some hopNet1
   \<and> MoveRouteTable (recording memEnv) ''net1'' 254 100 FAMILY_V6 (nsLinkLocalShared, []) =
       (None, nsLinkLocalShared, [])"
proof -
  have l: "LinkByName memEnv ''net1'' nsLinkLocalShared = Inr net1"
    by (simp add: memEnv_simps mem_LinkByName_def nsLinkLocalShared_def eth0_def net1_def)
  have r: "RouteList memEnv None FAMILY_V6 nsLinkLocalShared = Inr [linkLocalShared]"
    by (simp add: memEnv_simps mem_RouteList_def nsLinkLocalShared_def linkLocalShared_def
        sharedDefault_def FAMILY_V6_def)
  have ll: "IPNet_String memEnv (Dst linkLocalShared) = ''fe80::/64''"
    by (simp add: linkLocalShared_def memEnv_simps str_fe80_64)
  have m: "MoveRouteTable (recording memEnv) ''net1'' 254 100 FAMILY_V6 (nsLinkLocalShared, []) =
       (None, nsLinkLocalShared, [])"
    using l r ll by (simp add: MoveRouteTable_def recording_simps)
  have rest: "Table linkLocalShared = 254" "LinkIndex linkLocalShared \<noteq> Index net1"
    "MultiPath linkLocalShared \<noteq> []"
    "find (\<lambda>v. nh_LinkIndex v = Index net1) (MultiPath linkLocalShared) = Some hopNet1"
    by (simp_all add: linkLocalShared_def sharedDefault_def net1_def hopNet1_def)
  from l r m rest show ?thesis by simp
qed






text \<open>
  C7: let the interface resolve to a link and the routes be listed. If no listed route of
  the source table is on the interface, at the top level or in a segment, MoveRouteTable
  returns no error, leaves the kernel state as it is and submits no deletion and no
  addition. And whenever the loop reaches a listed route whose table is not the source
  table, it goes on with the remaining routes in the same state.
\<close>

theorem MoveRouteTable_no_routes:
  assumes link: "LinkByName E iface k = Inr link"
    and list: "RouteList E None ipfamily k = Inr routes"
  shows "((\<forall>r\<in>set routes. Table r = src \<longrightarrow>
             LinkIndex r \<noteq> Index link \<and> (\<forall>v\<in>set (MultiPath r). nh_LinkIndex v \<noteq> Index link)) \<longrightarrow>
           MoveRouteTable E iface src dst ipfamily k = (None, k)
           \<and> snd (snd (MoveRouteTable (recording E) iface src dst ipfamily (k, []))) = [])
       \<and> (routes = pre @ route # post \<longrightarrow> moveRoutes E link src dst pre k = (None, k1) \<longrightarrow>
          Table route \<noteq> src \<longrightarrow>
          MoveRouteTable E iface src dst ipfamily k = moveRoutes E link src dst post k1)"
proof (intro conjI impI)
  assume none: "\<forall>r\<in>set routes. Table r = src \<longrightarrow>
      LinkIndex r \<noteq> Index link \<and> (\<forall>v\<in>set (MultiPath r). nh_LinkIndex v \<noteq> Index link)"
  from link list show "MoveRouteTable E iface src dst ipfamily k = (None, k)"
    by (simp add: MoveRouteTable_def moveRoutes_nothing [OF none])
  from link list
  show "snd (snd (MoveRouteTable (recording E) iface src dst ipfamily (k, []))) = []"
    by (simp add: MoveRouteTable_def recording_simps moveRoutes_nothing [OF none])
next
  assume "routes = pre @ route # post" and "moveRoutes E link src dst pre k = (None, k1)"
    and "Table route \<noteq> src"
  with link list show "MoveRouteTable E iface src dst ipfamily k = moveRoutes E link src dst post k1"
    by (simp add: MoveRouteTable_reaches)
qed

text \<open>
  The instance: \<open>net1\<close> has no route in table 254, where only \<open>eth0\<close> has its default route;
  and with source table 100 the route of \<open>eth0\<close> in table 254 is skipped.
\<close>

theorem MoveRouteTable_no_routes_witness:
  "LinkByName memEnv ''net1'' nsMain = Inr net1
   \<and> RouteList memEnv None FAMILY_V4 nsMain = Inr [default4]
   \<and> MoveRouteTable memEnv ''net1'' 254 100 FAMILY_V4 nsMain = (None, nsMain)
   \<and> snd (snd (MoveRouteTable (recording memEnv) ''net1'' 254 100 FAMILY_V4 (nsMain, []))) = []
   \<and> MoveRouteTable memEnv ''eth0'' 100 200 FAMILY_V4 nsMain = (None, nsMain)"
proof -
  have l: "LinkByName memEnv ''net1'' nsMain = Inr net1"
    by (simp add: memEnv_simps mem_LinkByName_def nsMain_def eth0_def net1_def)
  have l0: "LinkByName memEnv ''eth0'' nsMain = Inr eth0"
    by (simp add: memEnv_simps mem_LinkByName_def nsMain_def eth0_def)
  have r: "RouteList memEnv None FAMILY_V4 nsMain = Inr [default4]"
    by (simp add: memEnv_simps mem_RouteList_def nsMain_def default4_def FAMILY_V4_def)
  have none: "\<forall>r\<in>set [default4]. Table r = 254 \<longrightarrow>
      LinkIndex r \<noteq> Index net1 \<and> (\<forall>v\<in>set (MultiPath r). nh_LinkIndex v \<noteq> Index net1)"
    by (simp add: default4_def net1_def)
  have start: "moveRoutes memEnv eth0 100 200 [] nsMain = (None, nsMain)"
    by simp
  from MoveRouteTable_no_routes [where E = memEnv and iface = "''net1''" and k = nsMain
      and link = net1 and ipfamily = FAMILY_V4 and routes = "[default4]" and src = 254 and dst = 100,
      OF l r] none
  have a: "MoveRouteTable memEnv ''net1'' 254 100 FAMILY_V4 nsMain = (None, nsMain)
      \<and> snd (snd (MoveRouteTable (recording memEnv) ''net1'' 254 100 FAMILY_V4 (nsMain, []))) = []"
    by simp
  from MoveRouteTable_no_routes [where E = memEnv and iface = "''eth0''" and k = nsMain
      and link = eth0 and ipfamily = FAMILY_V4 and routes = "[default4]" and src = 100 and dst = 200
      and pre = "[]" and route = default4 and post = "[]" and ?k1.0 = nsMain,
      OF l0 r] start
  have b: "MoveRouteTable memEnv ''eth0'' 100 200 FAMILY_V4 nsMain = (None, nsMain)"
    by (simp add: default4_def)
  from l r a b show ?thesis by simp
qed

text \<open>
  GetDefaultRouteInterface. The nested loops are one scan over the link indices of
  \<open>defaultRouteLinks\<close>.
\<close>

lemma scanMultiPath_flat:
  "(case scanMultiPath E ignore segs d k of
      Inl res \<Rightarrow> res
    | Inr name \<Rightarrow> firstInterface E ignore rest name k) =
   firstInterface E ignore (map nh_LinkIndex segs @ rest) d k"
  by (induction segs arbitrary: d) (simp_all split: prod.splits option.splits)

lemma scanRoutesV6_flat:
  "scanRoutesV6 E ignore routes d k =
     firstInterface E ignore (concat (map (\<lambda>r. map nh_LinkIndex (MultiPath r)) routes)) d k"
proof (induction routes arbitrary: d)
  case Nil
  show ?case by simp
next
  case (Cons route routes)
  show ?case
  proof (cases "MultiPath route")
    case Nil
    with Cons show ?thesis by simp
  next
    case (Cons v vs)
    have "scanRoutesV6 E ignore (route # routes) d k =
        (case scanMultiPath E ignore (MultiPath route) d k of
           Inl res \<Rightarrow> res
         | Inr name \<Rightarrow> firstInterface E ignore
             (concat (map (\<lambda>r. map nh_LinkIndex (MultiPath r)) routes)) name k)"
      using Cons Cons.IH by (simp split: sum.splits)
    then show ?thesis
      by (simp add: scanMultiPath_flat)
  qed
qed

lemma scanRoutesV4_flat:
  "scanRoutesV4 E ignore routes d k =
     firstInterface E ignore
       (map LinkIndex (filter (\<lambda>r. Family r = FAMILY_V4 \<and> isDefaultDst E (Dst r)) routes)) d k"
  by (induction routes arbitrary: d) (simp_all split: prod.splits option.splits)

lemma GetDefaultRouteInterface_flat:
  assumes "netns k = Inr k'" and "RouteList E None ipfamily k' = Inr routes"
  shows "GetDefaultRouteInterface E ipfamily ignore netns k =
     firstInterface E ignore (defaultRouteLinks E ipfamily routes) [] k'"
  using assms
  by (simp add: GetDefaultRouteInterface_def defaultRouteLinks_def scanRoutesV6_flat scanRoutesV4_flat)

lemma firstInterface_not_ignored:
  "d = [] \<or> d \<noteq> ignore \<Longrightarrow>
   fst (firstInterface E ignore idxs d k) = [] \<or> fst (firstInterface E ignore idxs d k) \<noteq> ignore"
proof (induction idxs arbitrary: d)
  case Nil
  then show ?case by simp
next
  case (Cons i idxs)
  show ?case
  proof (cases "LinkByIndex E i k")
    case (Inl err)
    then show ?thesis by (simp add: getDefaultRouteIface_def)
  next
    case (Inr link)
    with Cons.IH [of "[]"] show ?thesis
      by (auto simp add: getDefaultRouteIface_def)
  qed
qed

lemma firstInterface_skips:
  assumes "\<forall>j\<in>set skipped. \<exists>l. LinkByIndex E j k = Inr l \<and> (Name l = ignore \<or> Name l = [])"
  shows "firstInterface E ignore (skipped @ rest) d k =
     (if skipped = [] then firstInterface E ignore rest d k else firstInterface E ignore rest [] k)"
  using assms
proof (induction skipped arbitrary: d)
  case Nil
  show ?case by simp
next
  case (Cons j skipped)
  from Cons.prems obtain l where l: "LinkByIndex E j k = Inr l" and n: "Name l = ignore \<or> Name l = []"
    by auto
  from Cons.prems have "\<forall>j\<in>set skipped. \<exists>l. LinkByIndex E j k = Inr l \<and> (Name l = ignore \<or> Name l = [])"
    by simp
  from Cons.IH [OF this, of "[]"] l n show ?case
    by (auto simp add: getDefaultRouteIface_def)
qed

text \<open>
  C6 (amended): for every environment, namespace, family and exclude name, whenever
  GetDefaultRouteInterface returns an interface (a name that is not empty), it is not the
  excluded name. As long as the link indices it looks up resolve: if the links looked up
  first all resolve to the excluded name (or to an empty name) and the next one resolves
  to another, non-empty name, that name is returned with a nil error, so an excluded
  interface is skipped although it carries a default route; and if every link looked up
  resolves to the excluded or an empty name, the result is the empty name and a nil
  error. At the first link index that does not resolve the function stops and returns
  the empty name with the error of the lookup.
\<close>

theorem GetDefaultRouteInterface_excludes:
  "(fst (GetDefaultRouteInterface E ipfamily ignore netns k) \<noteq> [] \<longrightarrow>
      fst (GetDefaultRouteInterface E ipfamily ignore netns k) \<noteq> ignore)
   \<and> (netns k = Inr k' \<longrightarrow> RouteList E None ipfamily k' = Inr routes \<longrightarrow>
      defaultRouteLinks E ipfamily routes = skipped @ i # rest \<longrightarrow>
      (\<forall>j\<in>set skipped. \<exists>l. LinkByIndex E j k' = Inr l \<and> (Name l = ignore \<or> Name l = [])) \<longrightarrow>
      LinkByIndex E i k' = Inr link \<longrightarrow> Name link \<noteq> ignore \<longrightarrow> Name link \<noteq> [] \<longrightarrow>
      GetDefaultRouteInterface E ipfamily ignore netns k = (Name link, None))
   \<and> (netns k = Inr k' \<longrightarrow> RouteList E None ipfamily k' = Inr routes \<longrightarrow>
      (\<forall>j\<in>set (defaultRouteLinks E ipfamily routes).
          \<exists>l. LinkByIndex E j k' = Inr l \<and> (Name l = ignore \<or> Name l = [])) \<longrightarrow>
      GetDefaultRouteInterface E ipfamily ignore netns k = ([], None))
   \<and> (netns k = Inr k' \<longrightarrow> RouteList E None ipfamily k' = Inr routes \<longrightarrow>
      defaultRouteLinks E ipfamily routes = skipped @ i # rest \<longrightarrow>
      (\<forall>j\<in>set skipped. \<exists>l. LinkByIndex E j k' = Inr l \<and> (Name l = ignore \<or> Name l = [])) \<longrightarrow>
      LinkByIndex E i k' = Inl err \<longrightarrow>
      GetDefaultRouteInterface E ipfamily ignore netns k = ([], Some err))"
proof (intro conjI impI)
  assume nonempty: "fst (GetDefaultRouteInterface E ipfamily ignore netns k) \<noteq> []"
  show "fst (GetDefaultRouteInterface E ipfamily ignore netns k) \<noteq> ignore"
  proof (cases "netns k")
    case (Inl err)
    with nonempty show ?thesis by (simp add: GetDefaultRouteInterface_def)
  next
    case ns: (Inr k1)
    show ?thesis
    proof (cases "RouteList E None ipfamily k1")
      case (Inl err)
      with ns nonempty show ?thesis by (simp add: GetDefaultRouteInterface_def)
    next
      case (Inr rs)
      from firstInterface_not_ignored [of "[]" ignore E "defaultRouteLinks E ipfamily rs" k1] nonempty
      show ?thesis
        by (simp add: GetDefaultRouteInterface_flat [where netns = netns and k = k, OF ns Inr])
    qed
  qed
next
  assume ns: "netns k = Inr k'" and list: "RouteList E None ipfamily k' = Inr routes"
    and split: "defaultRouteLinks E ipfamily routes = skipped @ i # rest"
    and skipped: "\<forall>j\<in>set skipped. \<exists>l. LinkByIndex E j k' = Inr l \<and> (Name l = ignore \<or> Name l = [])"
    and link: "LinkByIndex E i k' = Inr link"
    and found: "Name link \<noteq> ignore" "Name link \<noteq> []"
  from link found have "\<And>d. firstInterface E ignore (i # rest) d k' = (Name link, None)"
    by (simp add: getDefaultRouteIface_def)
  then show "GetDefaultRouteInterface E ipfamily ignore netns k = (Name link, None)"
    by (simp add: GetDefaultRouteInterface_flat [where netns = netns and k = k, OF ns list] split firstInterface_skips [OF skipped])
next
  assume ns: "netns k = Inr k'" and list: "RouteList E None ipfamily k' = Inr routes"
    and skipped: "\<forall>j\<in>set (defaultRouteLinks E ipfamily routes).
          \<exists>l. LinkByIndex E j k' = Inr l \<and> (Name l = ignore \<or> Name l = [])"
  from firstInterface_skips [OF skipped, of "[]" "[]"]
  show "GetDefaultRouteInterface E ipfamily ignore netns k = ([], None)"
    by (simp add: GetDefaultRouteInterface_flat [where netns = netns and k = k, OF ns list])
next
  assume ns: "netns k = Inr k'" and list: "RouteList E None ipfamily k' = Inr routes"
    and split: "defaultRouteLinks E ipfamily routes = skipped @ i # rest"
    and skipped: "\<forall>j\<in>set skipped. \<exists>l. LinkByIndex E j k' = Inr l \<and> (Name l = ignore \<or> Name l = [])"
    and fails: "LinkByIndex E i k' = Inl err"
  from fails have "\<And>d. firstInterface E ignore (i # rest) d k' = ([], Some err)"
    by (simp add: getDefaultRouteIface_def)
  then show "GetDefaultRouteInterface E ipfamily ignore netns k = ([], Some err)"
    by (simp add: GetDefaultRouteInterface_flat [where netns = netns and k = k, OF ns list] split
        firstInterface_skips [OF skipped])
qed

text \<open>
  The instance: with \<open>eth0\<close> excluded, \<open>net1\<close> is found where both carry an IPv4 default
  route, and nothing where only \<open>eth0\<close> does.
\<close>

theorem GetDefaultRouteInterface_excludes_witness:
  "GetDefaultRouteInterface memEnv FAMILY_V4 ''eth0'' Inr nsTwoDefaults = (''net1'', None)
   \<and> GetDefaultRouteInterface memEnv FAMILY_V4 ''eth0'' Inr nsMain = ([], None)
   \<and> defaultRouteLinks memEnv FAMILY_V4 (ns_routes nsTwoDefaults) = [2, 3]
   \<and> LinkByIndex memEnv 2 nsTwoDefaults = Inr eth0
   \<and> LinkByIndex memEnv 3 nsTwoDefaults = Inr net1"
proof -
  have dflt: "isDefaultDst memEnv None"
    by (simp add: isDefaultDst_def)
  have list2: "RouteList memEnv None FAMILY_V4 nsTwoDefaults = Inr [default4, default4Net1]"
    by (simp add: memEnv_simps mem_RouteList_def nsTwoDefaults_def default4_def default4Net1_def
        FAMILY_V4_def)
  have idx2: "defaultRouteLinks memEnv FAMILY_V4 [default4, default4Net1] = [2] @ 3 # []"
    using dflt
    by (simp add: defaultRouteLinks_def default4_def default4Net1_def FAMILY_V4_def FAMILY_V6_def)
  have l2: "LinkByIndex memEnv 2 nsTwoDefaults = Inr eth0"
    by (simp add: memEnv_simps mem_LinkByIndex_def nsTwoDefaults_def eth0_def)
  have l3: "LinkByIndex memEnv 3 nsTwoDefaults = Inr net1"
    by (simp add: memEnv_simps mem_LinkByIndex_def nsTwoDefaults_def eth0_def net1_def)
  have sk2: "\<forall>j\<in>set [2]. \<exists>l. LinkByIndex memEnv j nsTwoDefaults = Inr l \<and> (Name l = ''eth0'' \<or> Name l = [])"
    using l2 by (simp add: eth0_def)
  have list1: "RouteList memEnv None FAMILY_V4 nsMain = Inr [default4]"
    by (simp add: memEnv_simps mem_RouteList_def nsMain_def default4_def FAMILY_V4_def)
  have idx1: "defaultRouteLinks memEnv FAMILY_V4 [default4] = [2]"
    using dflt by (simp add: defaultRouteLinks_def default4_def FAMILY_V4_def FAMILY_V6_def)
  have l1: "LinkByIndex memEnv 2 nsMain = Inr eth0"
    by (simp add: memEnv_simps mem_LinkByIndex_def nsMain_def eth0_def)
  have sk1: "\<forall>j\<in>set (defaultRouteLinks memEnv FAMILY_V4 [default4]).
      \<exists>l. LinkByIndex memEnv j nsMain = Inr l \<and> (Name l = ''eth0'' \<or> Name l = [])"
    using l1 by (simp add: idx1 eth0_def)
  from GetDefaultRouteInterface_excludes [where E = memEnv and ipfamily = FAMILY_V4
      and ignore = "''eth0''" and netns = Inr and k = nsTwoDefaults and k' = nsTwoDefaults
      and routes = "[default4, default4Net1]" and skipped = "[2]" and i = 3 and rest = "[]"
      and link = net1] list2 idx2 l3 sk2
  have a: "GetDefaultRouteInterface memEnv FAMILY_V4 ''eth0'' Inr nsTwoDefaults = (''net1'', None)"
    by (simp add: net1_def)
  from GetDefaultRouteInterface_excludes [where E = memEnv and ipfamily = FAMILY_V4
      and ignore = "''eth0''" and netns = Inr and k = nsMain and k' = nsMain
      and routes = "[default4]"] list1 sk1
  have b: "GetDefaultRouteInterface memEnv FAMILY_V4 ''eth0'' Inr nsMain = ([], None)"
    by simp
  from a b idx2 l2 l3 show ?thesis
    by (simp add: nsTwoDefaults_def)
qed

text \<open>
  C6 as stated fails in a namespace that lists a default route without a link. With
  \<open>eth0\<close> excluded and the IPv4 multipath default route listed before the default route of
  \<open>net1\<close>, index 0 is looked up first and does not resolve: \<open>net1\<close> is not returned, and the
  error is not nil. With only a default route without a device listed, no interface
  matches, and the error is not nil either.
\<close>

theorem GetDefaultRouteInterface_unresolved_link_counterexample:
  "RouteList memEnv None FAMILY_V4 nsEcmp4 = Inr [ecmpDefault4, default4Net1]
   \<and> LinkIndex ecmpDefault4 = 0 \<and> Dst ecmpDefault4 = None \<and> Family ecmpDefault4 = FAMILY_V4
   \<and> LinkIndex default4Net1 = 3 \<and> Dst default4Net1 = None \<and> Family default4Net1 = FAMILY_V4
   \<and> LinkByIndex memEnv 3 nsEcmp4 = Inr net1
   \<and> LinkByIndex memEnv 0 nsEcmp4 = Inl (ErrText ''Link not found'')
   \<and> GetDefaultRouteInterface memEnv FAMILY_V4 ''eth0'' Inr nsEcmp4 =
       ([], Some (ErrText ''Link not found''))
   \<and> RouteList memEnv None FAMILY_V4 nsDeviceless = Inr [devicelessDefault4]
   \<and> GetDefaultRouteInterface memEnv FAMILY_V4 ''eth0'' Inr nsDeviceless =
       ([], Some (ErrText ''Link not found''))"
proof -
  have dflt: "isDefaultDst memEnv None"
    by (simp add: isDefaultDst_def)
  have list1: "RouteList memEnv None FAMILY_V4 nsEcmp4 = Inr [ecmpDefault4, default4Net1]"
    by (simp add: memEnv_simps mem_RouteList_def nsEcmp4_def ecmpDefault4_def default4Net1_def
        default4_def FAMILY_V4_def)
  have fields: "LinkIndex ecmpDefault4 = 0" "Dst ecmpDefault4 = None" "Family ecmpDefault4 = FAMILY_V4"
    "LinkIndex default4Net1 = 3" "Dst default4Net1 = None" "Family default4Net1 = FAMILY_V4"
    by (simp_all add: ecmpDefault4_def default4Net1_def default4_def FAMILY_V4_def)
  have l3: "LinkByIndex memEnv 3 nsEcmp4 = Inr net1"
    by (simp add: memEnv_simps mem_LinkByIndex_def nsEcmp4_def eth0_def net1_def)
  have l0: "LinkByIndex memEnv 0 nsEcmp4 = Inl (ErrText ''Link not found'')"
    by (simp add: memEnv_simps mem_LinkByIndex_def nsEcmp4_def eth0_def net1_def)
  have r1: "GetDefaultRouteInterface memEnv FAMILY_V4 ''eth0'' Inr nsEcmp4 =
       ([], Some (ErrText ''Link not found''))"
    using list1 fields dflt l0
    by (simp add: GetDefaultRouteInterface_def getDefaultRouteIface_def FAMILY_V4_def FAMILY_V6_def)
  have list2: "RouteList memEnv None FAMILY_V4 nsDeviceless = Inr [devicelessDefault4]"
    by (simp add: memEnv_simps mem_RouteList_def nsDeviceless_def devicelessDefault4_def
        default4_def FAMILY_V4_def)
  have d0: "LinkByIndex memEnv 0 nsDeviceless = Inl (ErrText ''Link not found'')"
    by (simp add: memEnv_simps mem_LinkByIndex_def nsDeviceless_def eth0_def net1_def)
  have dfields: "LinkIndex devicelessDefault4 = 0" "Dst devicelessDefault4 = None"
    "Family devicelessDefault4 = FAMILY_V4"
    by (simp_all add: devicelessDefault4_def default4_def FAMILY_V4_def)
  have r2: "GetDefaultRouteInterface memEnv FAMILY_V4 ''eth0'' Inr nsDeviceless =
       ([], Some (ErrText ''Link not found''))"
    using list2 dfields dflt d0
    by (simp add: GetDefaultRouteInterface_def getDefaultRouteIface_def FAMILY_V4_def FAMILY_V6_def)
  from list1 fields l3 l0 r1 list2 r2 show ?thesis by simp
qed

section \<open>Recording is transparent for the route functions\<close>

text \<open>
  The runs of AddRoute and MoveRouteTable under \<open>recording E\<close> return the error and reach
  the kernel state of the runs under \<open>E\<close>; the log only grows beside them.
\<close>

lemma moveRoutes_recording:
  "fst (moveRoutes (recording E) link src dst routes s) = fst (moveRoutes E link src dst routes (fst s))
   \<and> fst (snd (moveRoutes (recording E) link src dst routes s)) =
       snd (moveRoutes E link src dst routes (fst s))"
proof (induction routes arbitrary: s)
  case Nil
  show ?case by simp
next
  case (Cons route routes)
  show ?case
  proof (cases "Table route \<noteq> src \<or> IPNet_String E (Dst route) = ''fe80::/64''")
    case True
    with Cons.IH [of s] show ?thesis
      by (auto simp add: recording_simps)
  next
    case False
    then have tbl: "Table route = src" and ll: "IPNet_String E (Dst route) \<noteq> ''fe80::/64''"
      by simp_all
    show ?thesis
    proof (cases "LinkIndex route = Index link")
      case True
      obtain e1 k1 where d1: "RouteDel E route (fst s) = (e1, k1)"
        by (cases "RouteDel E route (fst s)")
      obtain e2 k2 where a2: "RouteAdd E (route\<lparr>Table := dst\<rparr>) k1 = (e2, k2)"
        by (cases "RouteAdd E (route\<lparr>Table := dst\<rparr>) k1")
      from Cons.IH [of "(k2, snd s @ [CRouteDel route, CRouteAdd (route\<lparr>Table := dst\<rparr>)])"]
        True tbl ll d1 a2
      show ?thesis
        by (cases e1; cases e2) (simp_all add: recording_simps)
    next
      case False
      show ?thesis
      proof (cases "find (\<lambda>v. nh_LinkIndex v = Index link) (MultiPath route)")
        case None
        with False tbl ll Cons.IH [of s] show ?thesis
          by (simp add: recording_simps)
      next
        case (Some v)
        obtain e1 k1 where d1: "RouteDel E (deletedRoute v src) (fst s) = (e1, k1)"
          by (cases "RouteDel E (deletedRoute v src) (fst s)")
        obtain e2 k2 where a2: "RouteAdd E (generatedRoute v dst route) k1 = (e2, k2)"
          by (cases "RouteAdd E (generatedRoute v dst route) k1")
        from Cons.IH [of "(k2, snd s @ [CRouteDel (deletedRoute v src),
            CRouteAdd (generatedRoute v dst route)])"]
          Cons.IH [of s] False tbl ll d1 a2 Some
        show ?thesis
          by (cases e1; cases e2) (simp_all add: recording_simps)
      qed
    qed
  qed
qed

lemma MoveRouteTable_recording:
  "fst (MoveRouteTable (recording E) iface src dst ipfamily (k, log)) =
     fst (MoveRouteTable E iface src dst ipfamily k)
   \<and> fst (snd (MoveRouteTable (recording E) iface src dst ipfamily (k, log))) =
       snd (MoveRouteTable E iface src dst ipfamily k)"
  by (simp add: MoveRouteTable_def recording_simps moveRoutes_recording split: sum.splits)

lemma AddRoute_recording:
  "fst (AddRoute (recording E) ruleTable ipFamily scope iface dst v4Gw v6Gw (k, log)) =
     fst (AddRoute E ruleTable ipFamily scope iface dst v4Gw v6Gw k)
   \<and> fst (snd (AddRoute (recording E) ruleTable ipFamily scope iface dst v4Gw v6Gw (k, log))) =
       snd (AddRoute E ruleTable ipFamily scope iface dst v4Gw v6Gw k)"
  by (simp add: AddRoute_def recording_simps selectGateway_recording
      split: sum.splits prod.splits option.splits)


end
